theory Spec2Isabelle
  imports Main "HOL-Library.Word" "HOL-Library.List_Lexorder" "HOL-Library.Product_Lexorder"
    "HOL-Library.Multiset"
begin

section \<open>Strings and arrays of the JavaScript runtime\<close>

text \<open>
  A JavaScript string is modelled as a \<^typ>\<open>string\<close>, one \<^typ>\<open>char\<close> per code unit, for the
  code units up to \<open>0xFF\<close> (ASCII and the Latin-1 supplement). The functions below are the
  methods of \<open>String.prototype\<close> and \<open>Array.prototype\<close> that the server calls, on these
  units. \<open>toLowerCase\<close> maps \<open>A\<close>..\<open>Z\<close> to \<open>a\<close>..\<open>z\<close> and the capital letters of the supplement
  (\<open>0xC0\<close>..\<open>0xDE\<close> without the multiplication sign \<open>0xD7\<close>) to the small ones, \<open>0x20\<close> above;
  no other unit up to \<open>0xFF\<close> has a lower-case form of its own. The default icons lie beyond
  \<open>0xFF\<close>; they are data the server never looks into, and are written as their UTF-8
  bytes.
\<close>

definition is_upper :: "char \<Rightarrow> bool" where
  "is_upper c = (65 \<le> (of_char c :: nat) \<and> (of_char c :: nat) \<le> 90)"

definition is_lower :: "char \<Rightarrow> bool" where
  "is_lower c = (97 \<le> (of_char c :: nat) \<and> (of_char c :: nat) \<le> 122)"

definition is_digit :: "char \<Rightarrow> bool" where
  "is_digit c = (48 \<le> (of_char c :: nat) \<and> (of_char c :: nat) \<le> 57)"

definition is_upper_latin1 :: "char \<Rightarrow> bool" where
  "is_upper_latin1 c =
     (192 \<le> (of_char c :: nat) \<and> (of_char c :: nat) \<le> 222 \<and> (of_char c :: nat) \<noteq> 215)"

definition lower_char :: "char \<Rightarrow> char" where
  "lower_char c =
     (if is_upper c \<or> is_upper_latin1 c then char_of ((of_char c :: nat) + 32) else c)"

definition toLowerCase :: "string \<Rightarrow> string" where
  "toLowerCase s = map lower_char s"

definition startsWith :: "string \<Rightarrow> string \<Rightarrow> bool" where
  "startsWith s p = (take (length p) s = p)"

definition endsWith :: "string \<Rightarrow> string \<Rightarrow> bool" where
  "endsWith s p = (length p \<le> length s \<and> drop (length s - length p) s = p)"

text \<open>\<open>s.includes(p)\<close>: \<open>p\<close> occurs in \<open>s\<close> as a contiguous run of code units.\<close>

fun str_includes :: "string \<Rightarrow> string \<Rightarrow> bool" where
  "str_includes [] p = (p = [])"
| "str_includes (c # cs) p = (startsWith (c # cs) p \<or> str_includes cs p)"

text \<open>
  White space as \<open>trim\<close> and \<open>parseInt\<close> skip it: tab, LF, VT, FF, CR, space and the
  no-break space \<open>0xA0\<close> (the other white space of the language lies beyond \<open>0xFF\<close>).
\<close>

definition is_space :: "char \<Rightarrow> bool" where
  "is_space c =
     ((9 \<le> (of_char c :: nat) \<and> (of_char c :: nat) \<le> 13) \<or> (of_char c :: nat) = 32 \<or>
      (of_char c :: nat) = 160)"

definition trim :: "string \<Rightarrow> string" where
  "trim s = rev (dropWhile is_space (rev (dropWhile is_space s)))"

text \<open>\<open>s.split(',')\<close>: the pieces between the separators; an empty string gives one empty piece.\<close>

fun split_on :: "char \<Rightarrow> string \<Rightarrow> string list" where
  "split_on sep [] = [[]]"
| "split_on sep (c # cs) =
     (if c = sep then [] # split_on sep cs
      else (case split_on sep cs of [] \<Rightarrow> [[c]] | p # ps \<Rightarrow> (c # p) # ps))"

text \<open>
  \<open>xs.slice(start, end)\<close>: a negative index counts from the end, both indices are clamped
  to the array, and an end before the start gives the empty array.
\<close>

definition slice :: "'a list \<Rightarrow> int \<Rightarrow> int \<Rightarrow> 'a list" where
  "slice xs start fin =
     (let len = int (length xs);
          k = (if start < 0 then max (len + start) 0 else min start len);
          final = (if fin < 0 then max (len + fin) 0 else min fin len)
      in take (nat (final - k)) (drop (nat k) xs))"

subsection \<open>Numbers as text\<close>

text \<open>
  The value of a digit in a radix up to 36, as \<open>parseInt\<close> reads it, and the digit of a
  value, as \<open>Number.prototype.toString(radix)\<close> and \<open>Buffer.toString('hex')\<close> write it
  (lower case).
\<close>

definition digit_value :: "char \<Rightarrow> nat option" where
  "digit_value c =
     (if is_digit c then Some ((of_char c :: nat) - 48)
      else if is_lower c then Some ((of_char c :: nat) - 87)
      else if is_upper c then Some ((of_char c :: nat) - 55)
      else None)"

definition is_radix_digit :: "nat \<Rightarrow> char \<Rightarrow> bool" where
  "is_radix_digit r c = (case digit_value c of None \<Rightarrow> False | Some v \<Rightarrow> v < r)"

definition digit_char :: "nat \<Rightarrow> char" where
  "digit_char v = (if v < 10 then char_of (48 + v) else char_of (87 + v))"

fun radix_string :: "nat \<Rightarrow> nat \<Rightarrow> string" where
  "radix_string r n =
     (if r < 2 \<or> n < r then [digit_char n]
      else radix_string r (n div r) @ [digit_char (n mod r)])"

definition digits_value :: "nat \<Rightarrow> string \<Rightarrow> nat" where
  "digits_value r ds =
     foldl (\<lambda>acc c. acc * r + (case digit_value c of None \<Rightarrow> 0 | Some v \<Rightarrow> v)) 0 ds"

text \<open>
  A number of the language is a double. An integer up to \<open>2 ^ 53\<close> is held exactly; a
  larger one is rounded to 53 significant bits, a tie to the even neighbour. (The
  overflow to \<open>Infinity\<close> past the largest double is left out: the model keeps the rounded
  integer.)
\<close>

fun bit_length :: "nat \<Rightarrow> nat" where
  "bit_length n = (if n = 0 then 0 else Suc (bit_length (n div 2)))"

definition to_double :: "nat \<Rightarrow> nat" where
  "to_double n =
     (if n \<le> 2 ^ 53 then n
      else (let k = bit_length n - 53;
                q = n div 2 ^ k;
                r = n mod 2 ^ k
            in if 2 ^ k < 2 * r \<or> (2 * r = 2 ^ k \<and> odd q) then (q + 1) * 2 ^ k
               else q * 2 ^ k))"

text \<open>
  \<open>parseInt(x)\<close> with no radix, on a query parameter that is absent (\<open>undefined\<close>) or a
  string: skip white space, read a sign, read \<open>0x\<close> or \<open>0X\<close> as the hexadecimal prefix,
  then take the longest run of digits; their value is the result, as a double. \<open>None\<close> is
  \<open>NaN\<close>.
\<close>

definition parseInt :: "string option \<Rightarrow> int option" where
  "parseInt x =
     (case x of
        None \<Rightarrow> None
      | Some inputString \<Rightarrow>
          (let s = dropWhile is_space inputString;
               neg = startsWith s ''-'';
               s1 = (if startsWith s ''-'' \<or> startsWith s ''+'' then tl s else s);
               hex = (startsWith s1 ''0x'' \<or> startsWith s1 ''0X'');
               r = (if hex then 16 else 10);
               s2 = (if hex then drop 2 s1 else s1);
               z = takeWhile (is_radix_digit r) s2
           in if z = [] then None
              else Some ((if neg then - 1 else 1) * int (to_double (digits_value r z)))))"

text \<open>\<open>crypto.randomBytes(n).toString('hex')\<close>: two hexadecimal digits per byte.\<close>

definition hex_byte :: "8 word \<Rightarrow> string" where
  "hex_byte b = [digit_char (unat b div 16), digit_char (unat b mod 16)]"

definition hex_string :: "8 word list \<Rightarrow> string" where
  "hex_string bs = concat (map hex_byte bs)"

section \<open>The data model\<close>

text \<open>
  The documents of \<open>server.js\<close>. A field that may be \<open>null\<close> or missing is an option;
  times are milliseconds since the epoch (what \<open>new Date(created)\<close> gives back from the
  ISO string the server stored).
\<close>

record file_info =
  f_originalName :: string
  f_filename :: string
  f_path :: string
  f_mimetype :: string
  f_size :: nat

record item =
  item_id :: string
  item_type :: string
  fileType :: "string option"
  title :: string
  description :: "string option"
  url :: "string option"
  content :: "string option"
  category :: string
  tags :: "string list option"
  country :: "string option"
  source :: "string option"
  item_file :: "file_info option"
  textPreview :: "string option"
  created :: nat
  updated :: "nat option"
  views :: nat
  starred :: bool

record stats =
  totalItems :: int
  totalFiles :: int
  totalLinks :: int
  totalSize :: int

record library_doc =
  items :: "item list"
  stats :: stats
  lastUpdated :: nat

record category_rec =
  cat_id :: string
  cat_name :: string
  icon :: string
  color :: string

text \<open>
  The disk: the three JSON documents of \<open>DB_FILES\<close> (\<open>None\<close>: the file is missing or
  does not parse, so \<open>loadDB\<close> returns \<open>null\<close>) and the directory \<open>UPLOADS_DIR\<close>, from
  file name to content. The content of a blob is its bytes, one \<^typ>\<open>char\<close> per byte.
\<close>

record disk =
  library_json :: "library_doc option"
  categories_json :: "category_rec list option"
  tags_json :: "string list option"
  uploads :: "string \<rightharpoonup> string"

text \<open>
  What a request takes from outside the program: the clock (its k-th reading during the
  request), the random generator (its k-th byte), whether the file system calls of the
  request succeed, and the UTF-8 decoder of the runtime, from the bytes of a blob to the
  code units of its text (\<open>readFileSync(path, 'utf8')\<close>).
\<close>

record env =
  clock :: "nat \<Rightarrow> nat"
  random :: "nat \<Rightarrow> 8 word"
  write_ok :: bool
  blob_write_ok :: bool
  blob_read_ok :: bool
  unlink_ok :: bool
  decode_utf8 :: "string \<Rightarrow> string"

text \<open>
  A handler answers with a value, or fails: \<open>HttpError\<close> is a response the handler sends
  itself (\<open>res.status(n).json({error: msg})\<close>), \<open>Thrown\<close> an exception that leaves the
  handler (a \<open>TypeError\<close>, an error of the upload middleware) for the framework to answer.
\<close>

datatype error = HttpError nat string | Thrown string

section \<open>Helper functions\<close>

definition loadDB :: "(disk \<Rightarrow> 'a option) \<Rightarrow> disk \<Rightarrow> 'a option" where
  "loadDB file_of d = file_of d"

text \<open>
  \<open>saveDB\<close> catches the error of \<open>writeFileSync\<close> and returns \<open>false\<close>; the document on
  disk is then the old one.
\<close>

definition saveDB :: "env \<Rightarrow> (('a option \<Rightarrow> 'a option) \<Rightarrow> disk \<Rightarrow> disk) \<Rightarrow> 'a \<Rightarrow> disk \<Rightarrow> disk \<times> bool" where
  "saveDB e file_update data d =
     (if write_ok e then (file_update (\<lambda>_. Some data) d, True) else (d, False))"

definition default_categories :: "category_rec list" where
  "default_categories =
     [\<lparr>cat_id = ''conflicts'', cat_name = ''Konflikte'',
        icon = [CHR 0xE2, CHR 0x9A, CHR 0x94, CHR 0xEF, CHR 0xB8, CHR 0x8F], color = ''#ff3333''\<rparr>,
      \<lparr>cat_id = ''military'', cat_name = ''Milit'' @ [CHR 0xE4] @ ''r'',
        icon = [CHR 0xF0, CHR 0x9F, CHR 0x8E, CHR 0x96, CHR 0xEF, CHR 0xB8, CHR 0x8F], color = ''#ff6600''\<rparr>,
      \<lparr>cat_id = ''politics'', cat_name = ''Politik'',
        icon = [CHR 0xF0, CHR 0x9F, CHR 0x8F, CHR 0x9B, CHR 0xEF, CHR 0xB8, CHR 0x8F], color = ''#ffaa00''\<rparr>,
      \<lparr>cat_id = ''intelligence'', cat_name = ''Intelligence'',
        icon = [CHR 0xF0, CHR 0x9F, CHR 0x94, CHR 0x8D], color = ''#00aaff''\<rparr>,
      \<lparr>cat_id = ''maps'', cat_name = ''Karten'',
        icon = [CHR 0xF0, CHR 0x9F, CHR 0x97, CHR 0xBA, CHR 0xEF, CHR 0xB8, CHR 0x8F], color = ''#00ff00''\<rparr>,
      \<lparr>cat_id = ''reports'', cat_name = ''Berichte'',
        icon = [CHR 0xF0, CHR 0x9F, CHR 0x93, CHR 0x8A], color = ''#aa00ff''\<rparr>,
      \<lparr>cat_id = ''media'', cat_name = ''Medien'',
        icon = [CHR 0xF0, CHR 0x9F, CHR 0x93, CHR 0xB0], color = ''#ff00aa''\<rparr>,
      \<lparr>cat_id = ''other'', cat_name = ''Sonstiges'',
        icon = [CHR 0xF0, CHR 0x9F, CHR 0x93, CHR 0x81], color = ''#666666''\<rparr>]"

definition default_tags :: "string list" where
  "default_tags = [''Ukraine'', ''Russia'', ''Israel'', ''Gaza'', ''Syria'', ''Iran'', ''NATO'',
     ''USA'', ''China'', ''Important'', ''Verified'']"

definition empty_db :: "nat \<Rightarrow> library_doc" where
  "empty_db now =
     \<lparr>items = [],
      stats = \<lparr>totalItems = 0, totalFiles = 0, totalLinks = 0, totalSize = 0\<rparr>,
      lastUpdated = now\<rparr>"

text \<open>\<open>initDatabase\<close>: each document that does not load is written with its default.\<close>

definition initDatabase :: "env \<Rightarrow> disk \<Rightarrow> disk" where
  "initDatabase e d =
     (let d1 = (case loadDB library_json d of
                  None \<Rightarrow> fst (saveDB e library_json_update (empty_db (clock e 0)) d)
                | Some _ \<Rightarrow> d);
          d2 = (case loadDB categories_json d1 of
                  None \<Rightarrow> fst (saveDB e categories_json_update default_categories d1)
                | Some _ \<Rightarrow> d1)
      in (case loadDB tags_json d2 of
            None \<Rightarrow> fst (saveDB e tags_json_update default_tags d2)
          | Some _ \<Rightarrow> d2))"

text \<open>
  \<open>generateId\<close>: the clock in base 36, then four random bytes in hexadecimal. \<open>k\<close> and
  \<open>j\<close> say which reading of the clock and which random bytes the call gets.
\<close>

definition randomBytes :: "env \<Rightarrow> nat \<Rightarrow> nat \<Rightarrow> 8 word list" where
  "randomBytes e j n = map (random e) [j ..< j + n]"

definition generateId :: "env \<Rightarrow> nat \<Rightarrow> nat \<Rightarrow> string" where
  "generateId e k j = radix_string 36 (clock e k) @ hex_string (randomBytes e j 4)"

definition getFileType :: "string \<Rightarrow> string \<Rightarrow> string" where
  "getFileType mime fname =
     (if str_includes mime ''pdf'' then ''pdf''
      else if str_includes mime ''word'' \<or> endsWith fname ''.doc'' \<or> endsWith fname ''.docx'' then ''word''
      else if str_includes mime ''excel'' \<or> str_includes mime ''spreadsheet'' then ''excel''
      else if str_includes mime ''powerpoint'' \<or> str_includes mime ''presentation'' then ''powerpoint''
      else if startsWith mime ''image/'' then ''image''
      else if startsWith mime ''video/'' then ''video''
      else if startsWith mime ''audio/'' then ''audio''
      else if str_includes mime ''text'' \<or> str_includes mime ''markdown'' then ''text''
      else ''file'')"

text \<open>
  \<open>extractTextPreview\<close>: the first 500 code units of the text of a text-like blob, read
  as UTF-8; a failed read (the flag of the environment, or a blob that is not there) gives
  \<open>null\<close>.
\<close>

definition extractTextPreview :: "env \<Rightarrow> disk \<Rightarrow> string \<Rightarrow> string \<Rightarrow> string option" where
  "extractTextPreview e d fname mime =
     (if startsWith mime ''text/'' \<or> str_includes mime ''json''
      then (if blob_read_ok e
            then (case uploads d fname of
                    None \<Rightarrow> None
                  | Some data \<Rightarrow> Some (take 500 (decode_utf8 e data)))
            else None)
      else None)"

section \<open>Requests\<close>

text \<open>
  A field of a request is absent (\<open>undefined\<close>, \<open>None\<close>) or carries a value of the type
  the server expects. \<open>body\<close> is the JSON body of \<open>POST /api/library\<close> and of
  \<open>PUT /api/library/:id\<close>; \<open>query\<close> the query string of \<open>GET /api/library\<close>.
\<close>

record body =
  b_title :: "string option"
  b_description :: "string option"
  b_type :: "string option"
  b_url :: "string option"
  b_content :: "string option"
  b_category :: "string option"
  b_tags :: "string list option"
  b_country :: "string option"
  b_source :: "string option"
  b_starred :: "bool option"

record query =
  q_search :: "string option"
  q_category :: "string option"
  q_tag :: "string option"
  q_type :: "string option"
  q_sort :: "string option"
  q_limit :: "string option"
  q_offset :: "string option"

text \<open>A multipart text field named \<open>tags\<close> comes once (a string) or several times (an array).\<close>

datatype tags_field = TagsText string | TagsArray "string list"

record upload_body =
  ub_title :: "string option"
  ub_description :: "string option"
  ub_category :: "string option"
  ub_tags :: "tags_field option"
  ub_country :: "string option"
  ub_source :: "string option"

text \<open>
  The file part of the upload as the client sent it (the file name of its
  \<open>Content-Disposition\<close>, the media type of its \<open>Content-Type\<close> without the parameters, and
  its bytes), and \<open>req.file\<close> as the middleware leaves it.
\<close>

record incoming_file =
  in_filename :: string
  in_mediatype :: string
  in_data :: string

record multer_file =
  mf_originalname :: string
  mf_filename :: string
  mf_mimetype :: string
  mf_size :: nat

record upload_request =
  up_file :: "incoming_file option"
  up_body :: upload_body

record category_body =
  cb_name :: "string option"
  cb_icon :: "string option"
  cb_color :: "string option"

record import_body =
  im_library :: "library_doc option"
  im_categories :: "category_rec list option"
  im_tags :: "string list option"

record list_response =
  r_items :: "item list"
  r_total :: nat
  r_offset :: int
  r_limit :: int
  r_stats :: stats

record search_response =
  s_items :: "item list"
  s_total :: nat
  s_query :: "string option"

text \<open>\<open>x || d\<close> on an optional string (absent and empty are falsy) and on a number
  (\<open>NaN\<close> and \<open>0\<close> are falsy).\<close>

definition given :: "string option \<Rightarrow> bool" where
  "given x = (case x of None \<Rightarrow> False | Some s \<Rightarrow> s \<noteq> [])"

definition or_else :: "string option \<Rightarrow> string \<Rightarrow> string" where
  "or_else x d = (case x of None \<Rightarrow> d | Some s \<Rightarrow> if s = [] then d else s)"

definition or_null :: "string option \<Rightarrow> string option" where
  "or_null x = (case x of None \<Rightarrow> None | Some s \<Rightarrow> if s = [] then None else Some s)"

definition num_or :: "int option \<Rightarrow> int \<Rightarrow> int" where
  "num_or x d = (case x of None \<Rightarrow> d | Some n \<Rightarrow> if n = 0 then d else n)"

text \<open>\<open>xs.findIndex(p)\<close>; \<open>None\<close> is \<open>-1\<close>.\<close>

fun findIndex :: "('a \<Rightarrow> bool) \<Rightarrow> 'a list \<Rightarrow> nat option" where
  "findIndex P [] = None"
| "findIndex P (x # xs) = (if P x then Some 0 else map_option Suc (findIndex P xs))"

section \<open>The file upload configuration\<close>

definition safe_char :: "char \<Rightarrow> char" where
  "safe_char c =
     (if is_lower c \<or> is_upper c \<or> is_digit c \<or> c = CHR ''.'' \<or> c = CHR ''-'' then c else CHR ''_'')"

text \<open>
  The \<open>filename\<close> callback of \<open>multer.diskStorage\<close>: eight random bytes in hexadecimal, an
  underscore, and \<open>originalname.replace(/[^a-zA-Z0-9.-]/g, '_')\<close>. (The extension the
  first variant also computes is not used.) The second variant of the server builds the
  same name in one expression.
\<close>

definition storage_filename :: "env \<Rightarrow> string \<Rightarrow> string" where
  "storage_filename e originalname =
     (let uniqueId = hex_string (randomBytes e 0 8);
          safeName = map safe_char originalname
      in uniqueId @ ''_'' @ safeName)"

definition storage_filename_free :: "env \<Rightarrow> string \<Rightarrow> string" where
  "storage_filename_free e originalname =
     hex_string (randomBytes e 0 8) @ ''_'' @ map safe_char originalname"

definition allowedTypes :: "string list" where
  "allowedTypes =
     [''application/pdf'',
      ''application/msword'',
      ''application/vnd.openxmlformats-officedocument.wordprocessingml.document'',
      ''application/vnd.ms-excel'',
      ''application/vnd.openxmlformats-officedocument.spreadsheetml.sheet'',
      ''application/vnd.ms-powerpoint'',
      ''application/vnd.openxmlformats-officedocument.presentationml.presentation'',
      ''text/plain'',
      ''text/html'',
      ''text/markdown'',
      ''image/jpeg'',
      ''image/png'',
      ''image/gif'',
      ''image/webp'',
      ''video/mp4'',
      ''audio/mpeg'',
      ''application/json'',
      ''application/zip'']"

definition fileFilter :: "string \<Rightarrow> bool" where
  "fileFilter mime = (mime \<in> set allowedTypes \<or> startsWith mime ''text/'')"

definition fileSize_limit :: nat where
  "fileSize_limit = 100 * 1024 * 1024"

definition fileSize_limit_free :: nat where
  "fileSize_limit_free = 50 * 1024 * 1024"

text \<open>
  The upload middleware (\<open>multer\<close>, on its multipart parser) is not part of \<open>server.js\<close>;
  what it does to the file part before the callbacks of the server see it is modelled
  here. The parser keeps the base name of the file name the client sent, what follows
  the last slash or backslash, and nothing when that is \<open>.\<close> or \<open>..\<close>; it reports the media type in
  lower case.
\<close>

definition is_separator :: "char \<Rightarrow> bool" where
  "is_separator c = (c = CHR ''/'' \<or> c = CHR 0x5C)"

definition basename :: "string \<Rightarrow> string" where
  "basename p =
     (let b = rev (takeWhile (\<lambda>c. \<not> is_separator c) (rev p))
      in if b = ''..'' \<or> b = ''.'' then [] else b)"

text \<open>
  The storage engine, once the filter has accepted the file: a file over the limit and
  a failed write are errors the middleware hands to the framework; otherwise the blob is
  on disk under its storage name, and \<open>req.file\<close> carries the names, the media type and
  the number of bytes.
\<close>

definition store_blob :: "env \<Rightarrow> string \<Rightarrow> nat \<Rightarrow> string \<Rightarrow> string \<Rightarrow> string \<Rightarrow> disk \<Rightarrow> (error + multer_file option) \<times> disk" where
  "store_blob e fname limit originalname mimetype data d =
     (if limit < length data then (Inl (Thrown ''File too large''), d)
      else if \<not> blob_write_ok e then (Inl (Thrown ''write failed''), d)
      else (Inr (Some \<lparr>mf_originalname = originalname, mf_filename = fname,
                        mf_mimetype = mimetype, mf_size = length data\<rparr>),
            d\<lparr>uploads := (uploads d)(fname \<mapsto> data)\<rparr>))"

text \<open>
  \<open>upload.single('file')\<close>: with no file part, or one whose base name is empty, \<open>req.file\<close>
  stays undefined; a type the filter refuses is an error the middleware hands to the
  framework; otherwise the file goes to the storage engine under the name the
  \<open>filename\<close> callback gives it. The second variant has no filter.
\<close>

definition upload_single :: "env \<Rightarrow> incoming_file option \<Rightarrow> disk \<Rightarrow> (error + multer_file option) \<times> disk" where
  "upload_single e part d =
     (case part of
        None \<Rightarrow> (Inr None, d)
      | Some f \<Rightarrow>
          (let originalname = basename (in_filename f);
               mimetype = toLowerCase (in_mediatype f)
           in if originalname = [] then (Inr None, d)
              else if fileFilter mimetype
              then store_blob e (storage_filename e originalname) fileSize_limit
                     originalname mimetype (in_data f) d
              else (Inl (Thrown (''File type '' @ mimetype @ '' not allowed'')), d)))"

definition upload_single_free :: "env \<Rightarrow> incoming_file option \<Rightarrow> disk \<Rightarrow> (error + multer_file option) \<times> disk" where
  "upload_single_free e part d =
     (case part of
        None \<Rightarrow> (Inr None, d)
      | Some f \<Rightarrow>
          (let originalname = basename (in_filename f);
               mimetype = toLowerCase (in_mediatype f)
           in if originalname = [] then (Inr None, d)
              else store_blob e (storage_filename_free e originalname) fileSize_limit_free
                     originalname mimetype (in_data f) d))"

section \<open>The routes of the library\<close>

subsection \<open>GET /api/library\<close>

text \<open>The predicate of the search filter; \<open>s\<close> is the search text in lower case.\<close>

definition search_match :: "string \<Rightarrow> item \<Rightarrow> bool" where
  "search_match s i =
     (str_includes (toLowerCase (title i)) s \<or>
      (case description i of None \<Rightarrow> False | Some x \<Rightarrow> str_includes (toLowerCase x) s) \<or>
      (case tags i of None \<Rightarrow> False | Some ts \<Rightarrow> list_ex (\<lambda>t. str_includes (toLowerCase t) s) ts) \<or>
      (case content i of None \<Rightarrow> False | Some x \<Rightarrow> str_includes (toLowerCase x) s))"

definition filter_items :: "query \<Rightarrow> item list \<Rightarrow> item list" where
  "filter_items q xs =
     (let xs1 = (if given (q_search q)
                 then filter (search_match (toLowerCase (the (q_search q)))) xs else xs);
          xs2 = (if given (q_category q)
                 then filter (\<lambda>i. category i = the (q_category q)) xs1 else xs1);
          xs3 = (if given (q_tag q)
                 then filter (\<lambda>i. case tags i of None \<Rightarrow> False | Some ts \<Rightarrow> the (q_tag q) \<in> set ts) xs2
                 else xs2)
      in if given (q_type q) then filter (\<lambda>i. item_type i = the (q_type q)) xs3 else xs3)"

text \<open>
  \<open>items.sort(compare)\<close> is the stable sort by the key the comparison function
  subtracts. \<open>localeCompare\<close> belongs to the runtime, not to the server: it orders
  strings by the collation key of the locale, the parameter \<open>collate\<close>
  (\<open>a.localeCompare(b)\<close> is negative, zero or positive as the key of \<open>a\<close> is below, equal
  to or above the key of \<open>b\<close>).
\<close>

definition sort_items :: "(string \<Rightarrow> 'k::linorder) \<Rightarrow> string option \<Rightarrow> item list \<Rightarrow> item list" where
  "sort_items collate srt xs =
     (if srt = Some ''oldest'' then sort_key (\<lambda>i. int (created i)) xs
      else if srt = Some ''title'' then sort_key (\<lambda>i. collate (title i)) xs
      else sort_key (\<lambda>i. - int (created i)) xs)"

definition list_items :: "(string \<Rightarrow> 'k::linorder) \<Rightarrow> query \<Rightarrow> disk \<Rightarrow> error + list_response" where
  "list_items collate q d =
     (case loadDB library_json d of
        None \<Rightarrow> Inl (HttpError 500 ''Database error'')
      | Some db \<Rightarrow>
          (let sorted_items = sort_items collate (q_sort q) (filter_items q (items db));
               total = length sorted_items;
               start = num_or (parseInt (q_offset q)) 0;
               count = num_or (parseInt (q_limit q)) 50
           in Inr \<lparr>r_items = slice sorted_items start (start + count), r_total = total,
                    r_offset = start, r_limit = count, r_stats = stats db\<rparr>))"

subsection \<open>GET /api/library/:id\<close>

text \<open>
  \<open>find\<close> gives the first item with the id, an object of the array itself: the increment
  of \<open>views\<close> changes the array at that index. The result of \<open>saveDB\<close> is dropped.
\<close>

definition get_item :: "env \<Rightarrow> string \<Rightarrow> disk \<Rightarrow> (error + item) \<times> disk" where
  "get_item e ident d =
     (case loadDB library_json d of
        None \<Rightarrow> (Inl (HttpError 404 ''Item not found''), d)
      | Some db \<Rightarrow>
          (case findIndex (\<lambda>i. item_id i = ident) (items db) of
             None \<Rightarrow> (Inl (HttpError 404 ''Item not found''), d)
           | Some k \<Rightarrow>
               (let it = (items db ! k)\<lparr>views := views (items db ! k) + 1\<rparr>;
                    db' = db\<lparr>items := (items db)[k := it]\<rparr>
                in (Inr it, fst (saveDB e library_json_update db' d)))))"

subsection \<open>POST /api/library\<close>

definition new_item :: "env \<Rightarrow> body \<Rightarrow> string \<Rightarrow> item" where
  "new_item e b t =
     \<lparr>item_id = generateId e 0 0,
      item_type = or_else (b_type b) ''note'',
      fileType = None,
      title = t,
      description = Some (or_else (b_description b) []),
      url = or_null (b_url b),
      content = or_null (b_content b),
      category = or_else (b_category b) ''other'',
      tags = Some (case b_tags b of None \<Rightarrow> [] | Some ts \<Rightarrow> ts),
      country = or_null (b_country b),
      source = or_null (b_source b),
      item_file = None,
      textPreview = None,
      created = clock e 1,
      updated = None,
      views = 0,
      starred = False\<rparr>"

text \<open>
  The title is checked first; with no document loaded \<open>db.items.unshift\<close> then throws.
  The counters are incremented in place: \<open>totalItems\<close> always, \<open>totalLinks\<close> when the
  \<open>type\<close> of the request is \<open>link\<close>.
\<close>

definition create_item :: "env \<Rightarrow> body \<Rightarrow> disk \<Rightarrow> (error + item) \<times> disk" where
  "create_item e b d =
     (let loaded = loadDB library_json d in
      if \<not> given (b_title b) then (Inl (HttpError 400 ''Title required''), d)
      else
        (case loaded of
           None \<Rightarrow> (Inl (Thrown ''TypeError''), d)
         | Some db \<Rightarrow>
             (let newItem = new_item e b (the (b_title b));
                  st = stats db;
                  st1 = st\<lparr>totalItems := totalItems st + 1\<rparr>;
                  st2 = (if b_type b = Some ''link'' then st1\<lparr>totalLinks := totalLinks st1 + 1\<rparr> else st1);
                  db' = db\<lparr>items := newItem # items db, stats := st2, lastUpdated := clock e 2\<rparr>
              in (Inr newItem, fst (saveDB e library_json_update db' d)))))"

subsection \<open>POST /api/library/upload\<close>

definition upload_tags :: "tags_field option \<Rightarrow> string list" where
  "upload_tags x =
     (case x of
        None \<Rightarrow> []
      | Some (TagsArray ts) \<Rightarrow> ts
      | Some (TagsText s) \<Rightarrow> if s = [] then [] else map trim (split_on (CHR '','') s))"

definition uploaded_item :: "env \<Rightarrow> disk \<Rightarrow> upload_body \<Rightarrow> multer_file \<Rightarrow> item" where
  "uploaded_item e d b f =
     \<lparr>item_id = generateId e 0 8,
      item_type = ''file'',
      fileType = Some (getFileType (mf_mimetype f) (mf_originalname f)),
      title = or_else (ub_title b) (mf_originalname f),
      description = Some (or_else (ub_description b) []),
      url = None,
      content = None,
      category = or_else (ub_category b) ''other'',
      tags = Some (upload_tags (ub_tags b)),
      country = or_null (ub_country b),
      source = or_null (ub_source b),
      item_file = Some \<lparr>f_originalName = mf_originalname f, f_filename = mf_filename f,
                         f_path = ''/uploads/'' @ mf_filename f, f_mimetype = mf_mimetype f,
                         f_size = mf_size f\<rparr>,
      textPreview = extractTextPreview e d (mf_filename f) (mf_mimetype f),
      created = clock e 1,
      updated = None,
      views = 0,
      starred = False\<rparr>"

text \<open>The handler of the route, given \<open>req.file\<close> as the middleware left it.\<close>

definition upload_handler :: "env \<Rightarrow> multer_file option \<Rightarrow> upload_body \<Rightarrow> disk \<Rightarrow> (error + item) \<times> disk" where
  "upload_handler e uploaded b d =
     (case uploaded of
        None \<Rightarrow> (Inl (HttpError 400 ''No file uploaded''), d)
      | Some f \<Rightarrow>
          (case loadDB library_json d of
             None \<Rightarrow> (Inl (Thrown ''TypeError''), d)
           | Some db \<Rightarrow>
               (let newItem = uploaded_item e d b f;
                    st = stats db;
                    st' = st\<lparr>totalItems := totalItems st + 1, totalFiles := totalFiles st + 1,
                            totalSize := totalSize st + int (mf_size f)\<rparr>;
                    db' = db\<lparr>items := newItem # items db, stats := st', lastUpdated := clock e 2\<rparr>
                in (Inr newItem, fst (saveDB e library_json_update db' d)))))"

definition upload_item :: "env \<Rightarrow> upload_request \<Rightarrow> disk \<Rightarrow> (error + item) \<times> disk" where
  "upload_item e rq d =
     (case upload_single e (up_file rq) d of
        (Inl err, d1) \<Rightarrow> (Inl err, d1)
      | (Inr uploaded, d1) \<Rightarrow> upload_handler e uploaded (up_body rq) d1)"

subsection \<open>PUT /api/library/:id\<close>

text \<open>
  Each of the eight fields the handler reads from the body is assigned when it is not
  \<open>undefined\<close>. With no document loaded the index is \<open>undefined\<close>, not \<open>-1\<close>, and the
  first access to \<open>db.items\<close> throws.
\<close>

definition apply_fields :: "body \<Rightarrow> item \<Rightarrow> item" where
  "apply_fields b it =
     (let i1 = (case b_title b of None \<Rightarrow> it | Some v \<Rightarrow> it\<lparr>title := v\<rparr>);
          i2 = (case b_description b of None \<Rightarrow> i1 | Some v \<Rightarrow> i1\<lparr>description := Some v\<rparr>);
          i3 = (case b_category b of None \<Rightarrow> i2 | Some v \<Rightarrow> i2\<lparr>category := v\<rparr>);
          i4 = (case b_tags b of None \<Rightarrow> i3 | Some v \<Rightarrow> i3\<lparr>tags := Some v\<rparr>);
          i5 = (case b_country b of None \<Rightarrow> i4 | Some v \<Rightarrow> i4\<lparr>country := Some v\<rparr>);
          i6 = (case b_source b of None \<Rightarrow> i5 | Some v \<Rightarrow> i5\<lparr>source := Some v\<rparr>);
          i7 = (case b_content b of None \<Rightarrow> i6 | Some v \<Rightarrow> i6\<lparr>content := Some v\<rparr>)
      in (case b_starred b of None \<Rightarrow> i7 | Some v \<Rightarrow> i7\<lparr>starred := v\<rparr>))"

definition update_item :: "env \<Rightarrow> string \<Rightarrow> body \<Rightarrow> disk \<Rightarrow> (error + item) \<times> disk" where
  "update_item e ident b d =
     (case loadDB library_json d of
        None \<Rightarrow> (Inl (Thrown ''TypeError''), d)
      | Some db \<Rightarrow>
          (case findIndex (\<lambda>i. item_id i = ident) (items db) of
             None \<Rightarrow> (Inl (HttpError 404 ''Item not found''), d)
           | Some k \<Rightarrow>
               (let it = (apply_fields b (items db ! k))\<lparr>updated := Some (clock e 0)\<rparr>;
                    db' = db\<lparr>items := (items db)[k := it], lastUpdated := clock e 1\<rparr>
                in (Inr it, fst (saveDB e library_json_update db' d)))))"

subsection \<open>DELETE /api/library/:id\<close>

text \<open>
  An item with a \<open>file\<close> has its blob unlinked when it exists (a failing \<open>unlinkSync\<close>
  throws) and takes its size off the counters; a link takes one off \<open>totalLinks\<close>;
  \<open>splice(index, 1)\<close> removes the item.
\<close>

definition delete_item :: "env \<Rightarrow> string \<Rightarrow> disk \<Rightarrow> (error + unit) \<times> disk" where
  "delete_item e ident d =
     (case loadDB library_json d of
        None \<Rightarrow> (Inl (Thrown ''TypeError''), d)
      | Some db \<Rightarrow>
          (case findIndex (\<lambda>i. item_id i = ident) (items db) of
             None \<Rightarrow> (Inl (HttpError 404 ''Item not found''), d)
           | Some k \<Rightarrow>
               (let it = items db ! k;
                    st = stats db;
                    blob_there = (case item_file it of None \<Rightarrow> False
                                  | Some fi \<Rightarrow> uploads d (f_filename fi) \<noteq> None)
                in if blob_there \<and> \<not> unlink_ok e then (Inl (Thrown ''unlink failed''), d)
                   else
                     (let d1 = (case item_file it of None \<Rightarrow> d
                                | Some fi \<Rightarrow> d\<lparr>uploads := (uploads d)(f_filename fi := None)\<rparr>);
                          st1 = (case item_file it of None \<Rightarrow> st
                                 | Some fi \<Rightarrow> st\<lparr>totalFiles := totalFiles st - 1,
                                                  totalSize := totalSize st - int (f_size fi)\<rparr>);
                          st2 = (if item_type it = ''link'' then st1\<lparr>totalLinks := totalLinks st1 - 1\<rparr> else st1);
                          st3 = st2\<lparr>totalItems := totalItems st2 - 1\<rparr>;
                          db' = db\<lparr>items := take k (items db) @ drop (Suc k) (items db),
                                  stats := st3, lastUpdated := clock e 0\<rparr>
                      in (Inr (), fst (saveDB e library_json_update db' d1))))))"

section \<open>Categories, tags, search and import\<close>

definition default_icon :: string where
  "default_icon = [CHR 0xF0, CHR 0x9F, CHR 0x93, CHR 0x81]"

text \<open>
  The id of a category: \<open>name.toLowerCase().replace(/[^a-z0-9]/g, '-')\<close>.
\<close>

definition slug_char :: "char \<Rightarrow> char" where
  "slug_char c = (if is_lower c \<or> is_digit c then c else CHR ''-'')"

definition slug :: "string \<Rightarrow> string" where
  "slug name = map slug_char (toLowerCase name)"

definition list_categories :: "disk \<Rightarrow> category_rec list" where
  "list_categories d = (case loadDB categories_json d of None \<Rightarrow> [] | Some cs \<Rightarrow> cs)"

text \<open>
  \<open>POST /api/categories\<close>: the new category is pushed on the list that was loaded (the
  empty list when nothing loads); a body without a name throws at \<open>name.toLowerCase()\<close>.
\<close>

definition add_category :: "env \<Rightarrow> category_body \<Rightarrow> disk \<Rightarrow> (error + category_rec) \<times> disk" where
  "add_category e b d =
     (let cats = (case loadDB categories_json d of None \<Rightarrow> [] | Some cs \<Rightarrow> cs) in
      case cb_name b of
        None \<Rightarrow> (Inl (Thrown ''TypeError''), d)
      | Some name \<Rightarrow>
          (let newCategory = \<lparr>cat_id = slug name, cat_name = name,
                               icon = or_else (cb_icon b) default_icon,
                               color = or_else (cb_color b) ''#666666''\<rparr>
           in (Inr newCategory, fst (saveDB e categories_json_update (cats @ [newCategory]) d))))"

definition list_tags :: "disk \<Rightarrow> string list" where
  "list_tags d = (case loadDB tags_json d of None \<Rightarrow> [] | Some ts \<Rightarrow> ts)"

text \<open>\<open>POST /api/tags\<close>: a tag that is given and not yet in the list is pushed and saved.\<close>

definition add_tag :: "env \<Rightarrow> string option \<Rightarrow> disk \<Rightarrow> string list \<times> disk" where
  "add_tag e tag d =
     (let ts = (case loadDB tags_json d of None \<Rightarrow> [] | Some ts \<Rightarrow> ts) in
      if given tag \<and> the tag \<notin> set ts
      then (ts @ [the tag], fst (saveDB e tags_json_update (ts @ [the tag]) d))
      else (ts, d))"

text \<open>
  \<open>GET /api/search\<close>: the filter of the list route with one more field, the text preview;
  the first 50 matches and the number of all of them. With no document loaded the result
  is empty.
\<close>

definition search_match_preview :: "string \<Rightarrow> item \<Rightarrow> bool" where
  "search_match_preview s i =
     (str_includes (toLowerCase (title i)) s \<or>
      (case description i of None \<Rightarrow> False | Some x \<Rightarrow> str_includes (toLowerCase x) s) \<or>
      (case tags i of None \<Rightarrow> False | Some ts \<Rightarrow> list_ex (\<lambda>t. str_includes (toLowerCase t) s) ts) \<or>
      (case content i of None \<Rightarrow> False | Some x \<Rightarrow> str_includes (toLowerCase x) s) \<or>
      (case textPreview i of None \<Rightarrow> False | Some x \<Rightarrow> str_includes (toLowerCase x) s))"

definition search_items :: "string option \<Rightarrow> disk \<Rightarrow> search_response" where
  "search_items q d =
     (if \<not> given q then \<lparr>s_items = [], s_total = 0, s_query = None\<rparr>
      else
        (let found = (case loadDB library_json d of
                        None \<Rightarrow> []
                      | Some db \<Rightarrow> filter (search_match_preview (toLowerCase (the q))) (items db))
         in \<lparr>s_items = slice found 0 50, s_total = length found, s_query = q\<rparr>))"

text \<open>
  \<open>POST /api/import\<close>: each document of the body is saved over the one on disk.
  \<open>saveDB\<close> never throws, so the \<open>catch\<close> of the handler (500, \<open>Import failed\<close>) is never
  entered and the answer is always \<open>{success: true}\<close>.
\<close>

definition import_data :: "env \<Rightarrow> import_body \<Rightarrow> disk \<Rightarrow> (error + unit) \<times> disk" where
  "import_data e b d =
     (let d1 = (case im_library b of None \<Rightarrow> d | Some x \<Rightarrow> fst (saveDB e library_json_update x d));
          d2 = (case im_categories b of None \<Rightarrow> d1 | Some x \<Rightarrow> fst (saveDB e categories_json_update x d1));
          d3 = (case im_tags b of None \<Rightarrow> d2 | Some x \<Rightarrow> fst (saveDB e tags_json_update x d2))
      in (Inr (), d3))"

section \<open>The upload route of the second variant\<close>

text \<open>
  The second server of the file (the variant without a persistent disk) classifies by the
  media type alone, has no type filter, splits \<open>tags\<close> without asking whether it is an
  array (an array has no \<open>split\<close>: a \<open>TypeError\<close>), starts from an empty document when
  none loads, and leaves \<open>country\<close>, \<open>source\<close>, the preview and \<open>updated\<close> out of the item.
\<close>

definition getFileType_free :: "string \<Rightarrow> string" where
  "getFileType_free mime =
     (if str_includes mime ''pdf'' then ''pdf''
      else if str_includes mime ''word'' then ''word''
      else if str_includes mime ''excel'' \<or> str_includes mime ''spreadsheet'' then ''excel''
      else if startsWith mime ''image/'' then ''image''
      else ''file'')"

definition uploaded_item_free :: "env \<Rightarrow> upload_body \<Rightarrow> multer_file \<Rightarrow> string list \<Rightarrow> item" where
  "uploaded_item_free e b f ts =
     \<lparr>item_id = generateId e 0 8,
      item_type = ''file'',
      fileType = Some (getFileType_free (mf_mimetype f)),
      title = or_else (ub_title b) (mf_originalname f),
      description = Some (or_else (ub_description b) []),
      url = None,
      content = None,
      category = or_else (ub_category b) ''other'',
      tags = Some ts,
      country = None,
      source = None,
      item_file = Some \<lparr>f_originalName = mf_originalname f, f_filename = mf_filename f,
                         f_path = ''/uploads/'' @ mf_filename f, f_mimetype = mf_mimetype f,
                         f_size = mf_size f\<rparr>,
      textPreview = None,
      created = clock e 1,
      updated = None,
      views = 0,
      starred = False\<rparr>"

definition upload_tags_free :: "tags_field option \<Rightarrow> error + string list" where
  "upload_tags_free x =
     (case x of
        None \<Rightarrow> Inr []
      | Some (TagsArray ts) \<Rightarrow> Inl (Thrown ''TypeError'')
      | Some (TagsText s) \<Rightarrow> Inr (if s = [] then [] else map trim (split_on (CHR '','') s)))"

definition upload_handler_free :: "env \<Rightarrow> multer_file option \<Rightarrow> upload_body \<Rightarrow> disk \<Rightarrow> (error + item) \<times> disk" where
  "upload_handler_free e uploaded b d =
     (case uploaded of
        None \<Rightarrow> (Inl (HttpError 400 ''No file''), d)
      | Some f \<Rightarrow>
          (let db = (case loadDB library_json d of
                       None \<Rightarrow> \<lparr>items = [],
                                 stats = \<lparr>totalItems = 0, totalFiles = 0, totalLinks = 0, totalSize = 0\<rparr>,
                                 lastUpdated = 0\<rparr>
                     | Some x \<Rightarrow> x)
           in case upload_tags_free (ub_tags b) of
                Inl err \<Rightarrow> (Inl err, d)
              | Inr ts \<Rightarrow>
                  (let newItem = uploaded_item_free e b f ts;
                       st = stats db;
                       st' = st\<lparr>totalItems := totalItems st + 1, totalFiles := totalFiles st + 1,
                               totalSize := totalSize st + int (mf_size f)\<rparr>;
                       db' = db\<lparr>items := newItem # items db, stats := st'\<rparr>
                   in (Inr newItem, fst (saveDB e library_json_update db' d)))))"

definition upload_item_free :: "env \<Rightarrow> upload_request \<Rightarrow> disk \<Rightarrow> (error + item) \<times> disk" where
  "upload_item_free e rq d =
     (case upload_single_free e (up_file rq) d of
        (Inl err, d1) \<Rightarrow> (Inl err, d1)
      | (Inr uploaded, d1) \<Rightarrow> upload_handler_free e uploaded (up_body rq) d1)"

section \<open>The vocabulary of the properties\<close>

subsection \<open>Sequences of operations and the counters\<close>

text \<open>
  A mutation of the library, with the environment of its request; \<open>run_ops\<close> plays a
  sequence of them, each on the disk the one before left (an operation that fails leaves
  the document as it was).
\<close>

datatype operation = Create body | Upload upload_request | Delete string

definition run_op :: "env \<Rightarrow> operation \<Rightarrow> disk \<Rightarrow> disk" where
  "run_op e x d =
     (case x of
        Create b \<Rightarrow> snd (create_item e b d)
      | Upload rq \<Rightarrow> snd (upload_item e rq d)
      | Delete ident \<Rightarrow> snd (delete_item e ident d))"

fun run_ops :: "(env \<times> operation) list \<Rightarrow> disk \<Rightarrow> disk" where
  "run_ops [] d = d"
| "run_ops ((e, x) # rest) d = run_ops rest (run_op e x d)"

text \<open>What a scan of the items counts.\<close>

definition has_file :: "item \<Rightarrow> bool" where
  "has_file i = (item_file i \<noteq> None)"

definition file_size :: "item \<Rightarrow> int" where
  "file_size i = (case item_file i of None \<Rightarrow> 0 | Some f \<Rightarrow> int (f_size f))"

definition count_where :: "(item \<Rightarrow> bool) \<Rightarrow> item list \<Rightarrow> int" where
  "count_where P xs = int (length (filter P xs))"

definition stats_ok :: "library_doc \<Rightarrow> bool" where
  "stats_ok db =
     (totalItems (stats db) = int (length (items db)) \<and>
      totalFiles (stats db) = count_where has_file (items db) \<and>
      totalLinks (stats db) = count_where (\<lambda>i. item_type i = ''link'') (items db) \<and>
      totalSize (stats db) = sum_list (map file_size (items db)))"

definition files_typed :: "library_doc \<Rightarrow> bool" where
  "files_typed db = list_all (\<lambda>i. has_file i = (item_type i = ''file'')) (items db)"

definition creates_no_file_type :: "operation \<Rightarrow> bool" where
  "creates_no_file_type x = (case x of Create b \<Rightarrow> b_type b \<noteq> Some ''file'' | _ \<Rightarrow> True)"

subsection \<open>Concrete requests\<close>

text \<open>
  The environment of the examples. Its blobs are ASCII text, which the decoder leaves as
  it is.
\<close>

definition env0 :: env where
  "env0 = \<lparr>clock = (\<lambda>k. 5 + k), random = (\<lambda>k. of_nat (16 * k + 10)), write_ok = True,
            blob_write_ok = True, blob_read_ok = True, unlink_ok = True,
            decode_utf8 = (\<lambda>bytes. bytes)\<rparr>"

definition disk0 :: disk where
  "disk0 = \<lparr>library_json = Some (empty_db 0), categories_json = Some default_categories,
             tags_json = Some default_tags, uploads = Map.empty\<rparr>"

definition no_body :: body where
  "no_body = \<lparr>b_title = None, b_description = None, b_type = None, b_url = None,
               b_content = None, b_category = None, b_tags = None, b_country = None,
               b_source = None, b_starred = None\<rparr>"

definition no_upload_body :: upload_body where
  "no_upload_body = \<lparr>ub_title = None, ub_description = None, ub_category = None,
                      ub_tags = None, ub_country = None, ub_source = None\<rparr>"

definition report_pdf :: upload_request where
  "report_pdf = \<lparr>up_file = Some \<lparr>in_filename = ''report 1.pdf'', in_mediatype = ''application/pdf'',
                                    in_data = ''%PDF-1.4''\<rparr>,
                  up_body = no_upload_body\<rparr>"

definition ops0 :: "(env \<times> operation) list" where
  "ops0 = [(env0, Create (no_body\<lparr>b_title := Some ''Kyiv'', b_type := Some ''link''\<rparr>)),
           (env0\<lparr>clock := (\<lambda>k. 7 + k)\<rparr>, Upload report_pdf),
           (env0\<lparr>clock := (\<lambda>k. 9 + k)\<rparr>, Create (no_body\<lparr>b_title := Some ''Memo''\<rparr>)),
           (env0, Delete ''50a1a2a3a'')]"

subsection \<open>Repeated reads\<close>

text \<open>
  \<open>get_many es ident\<close> sends one \<open>GET /api/library/:id\<close> per environment of \<open>es\<close>, each to
  the disk the one before left, and collects the answers.
\<close>

fun get_many :: "env list \<Rightarrow> string \<Rightarrow> disk \<Rightarrow> (error + item) list \<times> disk" where
  "get_many [] ident d = ([], d)"
| "get_many (e # es) ident d =
     (let (r, d1) = get_item e ident d;
          (rs, d2) = get_many es ident d1
      in (r # rs, d2))"

definition views_of :: "error + item \<Rightarrow> nat option" where
  "views_of r = (case r of Inl _ \<Rightarrow> None | Inr it \<Rightarrow> Some (views it))"

definition stored_views :: "string \<Rightarrow> disk \<Rightarrow> nat option" where
  "stored_views ident d =
     (case library_json d of
        None \<Rightarrow> None
      | Some db \<Rightarrow> map_option views (find (\<lambda>i. item_id i = ident) (items db)))"

subsection \<open>An item to update\<close>

definition kyiv_disk :: disk where
  "kyiv_disk = snd (create_item env0 (no_body\<lparr>b_title := Some ''Kyiv'', b_url := Some ''http://a.example''\<rparr>) disk0)"

definition kyiv :: item where
  "kyiv = \<lparr>item_id = ''50a1a2a3a'', item_type = ''note'', fileType = None, title = ''Kyiv'',
            description = Some [], url = Some ''http://a.example'', content = None,
            category = ''other'', tags = Some [], country = None, source = None,
            item_file = None, textPreview = None, created = 6, updated = None,
            views = 0, starred = False\<rparr>"

subsection \<open>A category to add\<close>

definition news_body :: category_body where
  "news_body = \<lparr>cb_name = Some ''Breaking News'', cb_icon = None, cb_color = None\<rparr>"

text \<open>The id the specification describes, character by character of the name.\<close>

definition slug_of_char :: "char \<Rightarrow> char" where
  "slug_of_char c =
     (if is_upper c then lower_char c
      else if is_lower c \<or> is_digit c then c
      else CHR ''-'')"

subsection \<open>File names\<close>

text \<open>
  The storage name in the words of the specification. The characters a sanitised name
  keeps are written out one by one, and every other character becomes an underscore; a
  byte is written as two of the digits \<open>0123456789abcdef\<close>, the high half first, and a
  token is the bytes written one after the other.
\<close>

definition name_alphabet :: string where
  "name_alphabet = ''ABCDEFGHIJKLMNOPQRSTUVWXYZabcdefghijklmnopqrstuvwxyz0123456789.-''"

definition sanitized :: "string \<Rightarrow> string" where
  "sanitized name = map (\<lambda>c. if c \<in> set name_alphabet then c else CHR ''_'') name"

definition hex_digits :: string where
  "hex_digits = ''0123456789abcdef''"

definition hex_token :: "8 word list \<Rightarrow> string" where
  "hex_token bytes =
     concat (map (\<lambda>b. [hex_digits ! (unat b div 16), hex_digits ! (unat b mod 16)]) bytes)"

text \<open>
  The characters a storage name is made of, and what makes a name a single entry of a
  directory: it is not empty, not \<open>.\<close> or \<open>..\<close>, and holds no slash, no backslash and no
  NUL.
\<close>

definition name_char :: "char \<Rightarrow> bool" where
  "name_char c = (c \<in> set name_alphabet \<or> c = CHR ''_'')"

definition single_entry :: "string \<Rightarrow> bool" where
  "single_entry s =
     (s \<noteq> [] \<and> s \<noteq> ''.'' \<and> s \<noteq> ''..'' \<and>
      CHR ''/'' \<notin> set s \<and> CHR 0x5C \<notin> set s \<and> CHR 0x00 \<notin> set s)"

text \<open>
  An upload without a title. The client names the file with a directory part, which the
  parser drops, and writes the media type in capitals, which the parser lowers.
\<close>

definition untitled_pdf :: upload_request where
  "untitled_pdf = \<lparr>up_file = Some \<lparr>in_filename = ''../plan B.pdf'', in_mediatype = ''Application/PDF'',
                                      in_data = ''%PDF-1.4''\<rparr>,
                    up_body = no_upload_body\<rparr>"

subsection \<open>Failing writes\<close>

definition disk_full :: env where
  "disk_full = env0\<lparr>write_ok := False\<rparr>"

definition no_query :: query where
  "no_query = \<lparr>q_search = None, q_category = None, q_tag = None, q_type = None,
                q_sort = None, q_limit = None, q_offset = None\<rparr>"

subsection \<open>A library to query\<close>

text \<open>
  Three notes created one after the other: \<open>Report B\<close> (at time 6), \<open>Report A\<close> (at time
  21) and \<open>Ukraine brief\<close> (at time 31). \<open>code_units\<close> is the key of the lexicographic
  order, which compares strings code unit by code unit.
\<close>

definition reports_disk :: disk where
  "reports_disk =
     run_ops [(env0, Create (no_body\<lparr>b_title := Some ''Report B''\<rparr>)),
              (env0\<lparr>clock := (\<lambda>k. 20 + k)\<rparr>, Create (no_body\<lparr>b_title := Some ''Report A''\<rparr>)),
              (env0\<lparr>clock := (\<lambda>k. 30 + k)\<rparr>,
                 Create (no_body\<lparr>b_title := Some ''Ukraine brief'', b_tags := Some [''Kyiv'']\<rparr>))]
       disk0"

definition code_units :: "string \<Rightarrow> nat list" where
  "code_units s = map of_char s"

definition newest_first :: "item list \<Rightarrow> bool" where
  "newest_first xs = sorted_wrt (\<lambda>a b. created b \<le> created a) xs"

definition oldest_first :: "item list \<Rightarrow> bool" where
  "oldest_first xs = sorted_wrt (\<lambda>a b. created a \<le> created b) xs"

definition by_title :: "(string \<Rightarrow> 'k::linorder) \<Rightarrow> item list \<Rightarrow> bool" where
  "by_title collate xs = sorted_wrt (\<lambda>a b. collate (title a) \<le> collate (title b)) xs"

definition note_item :: "string \<Rightarrow> string \<Rightarrow> nat \<Rightarrow> string list \<Rightarrow> item" where
  "note_item ident t at ts =
     \<lparr>item_id = ident, item_type = ''note'', fileType = None, title = t,
      description = Some [], url = None, content = None, category = ''other'',
      tags = Some ts, country = None, source = None, item_file = None,
      textPreview = None, created = at, updated = None, views = 0, starred = False\<rparr>"

definition report_a :: item where
  "report_a = note_item ''k0a1a2a3a'' ''Report A'' 21 []"

definition report_b :: item where
  "report_b = note_item ''50a1a2a3a'' ''Report B'' 6 []"

definition ukraine_brief :: item where
  "ukraine_brief = note_item ''u0a1a2a3a'' ''Ukraine brief'' 31 [''Kyiv'']"

text \<open>
  The order \<open>localeCompare\<close> gives ASCII letters and digits under the default collation
  of the runtime: texts are compared letter by letter with the case ignored, a digit
  below every letter and any other character below every digit; texts that differ in case
  only are then compared by case, lower case first. So \<open>a\<close>, \<open>A\<close>, \<open>b\<close>, \<open>B\<close> is ascending.
  (Among the characters that are neither letters nor digits the collation has an order of
  its own, which this key does not render.)
\<close>

definition primary_weight :: "char \<Rightarrow> nat" where
  "primary_weight c =
     (if is_lower c then 1000 + of_char c
      else if is_upper c then 1000 + of_char c + 32
      else if is_digit c then 500 + of_char c
      else of_char c)"

definition case_weight :: "char \<Rightarrow> nat" where
  "case_weight c = (if is_upper c then 1 else 0)"

definition locale_key :: "string \<Rightarrow> nat list \<times> nat list" where
  "locale_key s = (map primary_weight s, map case_weight s)"

text \<open>Two notes: \<open>Beta\<close> (created at time 6) and \<open>alpha\<close> (at time 21).\<close>

definition letters_disk :: disk where
  "letters_disk =
     run_ops [(env0, Create (no_body\<lparr>b_title := Some ''Beta''\<rparr>)),
              (env0\<lparr>clock := (\<lambda>k. 20 + k)\<rparr>, Create (no_body\<lparr>b_title := Some ''alpha''\<rparr>))]
       disk0"

definition alpha_note :: item where
  "alpha_note = note_item ''k0a1a2a3a'' ''alpha'' 21 []"

definition beta_note :: item where
  "beta_note = note_item ''50a1a2a3a'' ''Beta'' 6 []"

subsection \<open>Pages\<close>

text \<open>
  A non-negative integer as a query parameter carries it: its decimal numeral. A parameter
  that is present must be an integer a JavaScript number holds exactly.
\<close>

definition decimal :: "nat \<Rightarrow> string" where
  "decimal n = radix_string 10 n"

definition exact_number :: "nat option \<Rightarrow> bool" where
  "exact_number x = (case x of None \<Rightarrow> True | Some n \<Rightarrow> n \<le> 2 ^ 53)"

definition paged :: "query \<Rightarrow> nat option \<Rightarrow> nat option \<Rightarrow> query" where
  "paged q off lim = q\<lparr>q_offset := map_option decimal off, q_limit := map_option decimal lim\<rparr>"

definition window_start :: "nat option \<Rightarrow> nat" where
  "window_start off = (case off of None \<Rightarrow> 0 | Some n \<Rightarrow> n)"

definition window_length :: "nat option \<Rightarrow> nat" where
  "window_length lim = (case lim of None \<Rightarrow> 50 | Some n \<Rightarrow> if n = 0 then 50 else n)"

subsection \<open>Searching\<close>

text \<open>
  \<open>s\<close> is a case-insensitive substring of \<open>t\<close>: some contiguous part of \<open>t\<close> equals \<open>s\<close> once
  both are in lower case. An item is named by \<open>s\<close> in its fields when that holds of its
  title, its description, one of its tags or its content, a field that is absent counting
  as no match; it is named in its preview when that holds of its text preview.
\<close>

definition ci_substring :: "string \<Rightarrow> string \<Rightarrow> bool" where
  "ci_substring s t = (\<exists>ps u ss. t = ps @ u @ ss \<and> toLowerCase u = toLowerCase s)"

definition named_in_fields :: "string \<Rightarrow> item \<Rightarrow> bool" where
  "named_in_fields s i =
     (ci_substring s (title i) \<or>
      (\<exists>x. description i = Some x \<and> ci_substring s x) \<or>
      (\<exists>ts t. tags i = Some ts \<and> t \<in> set ts \<and> ci_substring s t) \<or>
      (\<exists>x. content i = Some x \<and> ci_substring s x))"

definition named_in_preview :: "string \<Rightarrow> item \<Rightarrow> bool" where
  "named_in_preview s i = (\<exists>x. textPreview i = Some x \<and> ci_substring s x)"

definition searching :: "string \<Rightarrow> query" where
  "searching s = no_query\<lparr>q_search := Some s\<rparr>"

text \<open>A text file whose content names Ukraine and whose metadata does not.\<close>

definition notes_txt :: upload_request where
  "notes_txt = \<lparr>up_file = Some \<lparr>in_filename = ''notes.txt'', in_mediatype = ''text/plain'',
                                   in_data = ''Ukraine update''\<rparr>,
                 up_body = no_upload_body\<rparr>"

definition notes_disk :: disk where
  "notes_disk = snd (upload_item env0 notes_txt disk0)"

definition notes_item :: item where
  "notes_item =
     \<lparr>item_id = ''58a9aaaba'', item_type = ''file'', fileType = Some ''text'', title = ''notes.txt'',
      description = Some [], url = None, content = None, category = ''other'',
      tags = Some [], country = None, source = None,
      item_file = Some \<lparr>f_originalName = ''notes.txt'', f_filename = ''0a1a2a3a4a5a6a7a_notes.txt'',
                         f_path = ''/uploads/0a1a2a3a4a5a6a7a_notes.txt'', f_mimetype = ''text/plain'',
                         f_size = 14\<rparr>,
      textPreview = Some ''Ukraine update'', created = 6, updated = None, views = 0,
      starred = False\<rparr>"

section \<open>The counters agree with a scan of the items\<close>

declare radix_string.simps [simp del]

declare bit_length.simps [simp del]

lemma findIndex_Some: "findIndex P xs = Some k \<Longrightarrow> k < length xs \<and> P (xs ! k)"
proof (induction xs arbitrary: k)
  case Nil
  then show ?case by simp
next
  case (Cons x xs)
  then show ?case by (cases "P x") (auto simp: nth_Cons')
qed

lemma count_where_Cons: "count_where P (x # xs) = (if P x then 1 else 0) + count_where P xs"
  by (simp add: count_where_def)

lemma count_where_splice:
  assumes "k < length xs"
  shows "count_where P (take k xs @ drop (Suc k) xs) = count_where P xs - (if P (xs ! k) then 1 else 0)"
proof -
  have "xs = take k xs @ xs ! k # drop (Suc k) xs"
    using assms by (rule id_take_nth_drop)
  then have "count_where P xs = count_where P (take k xs @ xs ! k # drop (Suc k) xs)"
    by simp
  then show ?thesis by (simp add: count_where_def)
qed

lemma sum_splice:
  assumes "k < length xs"
  shows "sum_list (map f (take k xs @ drop (Suc k) xs)) = sum_list (map f xs) - (f (xs ! k) :: int)"
proof -
  have "xs = take k xs @ xs ! k # drop (Suc k) xs"
    using assms by (rule id_take_nth_drop)
  then have "sum_list (map f xs) = sum_list (map f (take k xs @ xs ! k # drop (Suc k) xs))"
    by simp
  then show ?thesis by simp
qed

lemma saveDB_library:
  "library_json (fst (saveDB e library_json_update db' d)) = (if write_ok e then Some db' else library_json d)"
  by (simp add: saveDB_def)

lemma new_item_facts:
  "has_file (new_item e b t) = False"
  "file_size (new_item e b t) = 0"
  "item_type (new_item e b t) = or_else (b_type b) ''note''"
  by (simp_all add: new_item_def has_file_def file_size_def)

lemma or_else_link: "(or_else x ''note'' = ''link'') = (x = Some ''link'')"
  by (auto simp: or_else_def split: option.splits)

lemma or_else_file: "(or_else x ''note'' = ''file'') = (x = Some ''file'')"
  by (auto simp: or_else_def split: option.splits)

lemma create_library:
  assumes "library_json d = Some db"
  shows "library_json (snd (create_item e b d)) = Some db \<or>
         library_json (snd (create_item e b d)) =
           Some (db\<lparr>items := new_item e b (the (b_title b)) # items db,
                    stats := (stats db)\<lparr>totalItems := totalItems (stats db) + 1,
                               totalLinks := totalLinks (stats db) + (if b_type b = Some ''link'' then 1 else 0)\<rparr>,
                    lastUpdated := clock e 2\<rparr>)"
  using assms by (simp add: create_item_def Let_def loadDB_def saveDB_library)

lemma create_stats_ok:
  assumes "library_json d = Some db" "stats_ok db"
  shows "\<exists>db'. library_json (snd (create_item e b d)) = Some db' \<and> stats_ok db'"
  using create_library [OF assms(1), of e b] assms(2)
  by (auto simp: stats_ok_def count_where_Cons new_item_facts or_else_link)

lemma create_files_typed:
  assumes "library_json d = Some db" "files_typed db" "b_type b \<noteq> Some ''file''"
  shows "\<exists>db'. library_json (snd (create_item e b d)) = Some db' \<and> files_typed db'"
  using create_library [OF assms(1), of e b] assms(2,3)
  by (auto simp: files_typed_def new_item_facts or_else_file)

lemma uploaded_item_facts:
  "has_file (uploaded_item e d b f) = True"
  "file_size (uploaded_item e d b f) = int (mf_size f)"
  "item_type (uploaded_item e d b f) = ''file''"
  by (simp_all add: uploaded_item_def has_file_def file_size_def)

lemma upload_single_library:
  "library_json (snd (upload_single e part d)) = library_json d"
  by (simp add: upload_single_def store_blob_def Let_def split: option.splits)

lemma upload_handler_library:
  assumes "library_json d = Some db"
  shows "library_json (snd (upload_handler e u b d)) = Some db \<or>
         (\<exists>f. u = Some f \<and> library_json (snd (upload_handler e u b d)) =
           Some (db\<lparr>items := uploaded_item e d b f # items db,
                    stats := (stats db)\<lparr>totalItems := totalItems (stats db) + 1,
                               totalFiles := totalFiles (stats db) + 1,
                               totalSize := totalSize (stats db) + int (mf_size f)\<rparr>,
                    lastUpdated := clock e 2\<rparr>))"
  using assms
  by (cases u) (simp_all add: upload_handler_def Let_def loadDB_def saveDB_library)

lemma upload_handler_stats_ok:
  assumes "library_json d = Some db" "stats_ok db"
  shows "\<exists>db'. library_json (snd (upload_handler e u b d)) = Some db' \<and> stats_ok db'"
  using upload_handler_library [OF assms(1), of e u b] assms(2)
  by (auto simp: stats_ok_def count_where_Cons uploaded_item_facts)

lemma upload_handler_files_typed:
  assumes "library_json d = Some db" "files_typed db"
  shows "\<exists>db'. library_json (snd (upload_handler e u b d)) = Some db' \<and> files_typed db'"
  using upload_handler_library [OF assms(1), of e u b] assms(2)
  by (auto simp: files_typed_def uploaded_item_facts)

lemma upload_item_snd:
  "snd (upload_item e rq d) =
     (case fst (upload_single e (up_file rq) d) of
        Inl err \<Rightarrow> snd (upload_single e (up_file rq) d)
      | Inr u \<Rightarrow> snd (upload_handler e u (up_body rq) (snd (upload_single e (up_file rq) d))))"
  by (simp add: upload_item_def split: prod.splits sum.splits)

lemma upload_stats_ok:
  assumes "library_json d = Some db" "stats_ok db"
  shows "\<exists>db'. library_json (snd (upload_item e rq d)) = Some db' \<and> stats_ok db'"
proof (cases "fst (upload_single e (up_file rq) d)")
  case (Inl err)
  then show ?thesis using assms by (simp add: upload_item_snd upload_single_library)
next
  case (Inr u)
  have "library_json (snd (upload_single e (up_file rq) d)) = Some db"
    using assms by (simp add: upload_single_library)
  from upload_handler_stats_ok [OF this assms(2)] show ?thesis
    using Inr by (simp add: upload_item_snd)
qed

lemma upload_files_typed:
  assumes "library_json d = Some db" "files_typed db"
  shows "\<exists>db'. library_json (snd (upload_item e rq d)) = Some db' \<and> files_typed db'"
proof (cases "fst (upload_single e (up_file rq) d)")
  case (Inl err)
  then show ?thesis using assms by (simp add: upload_item_snd upload_single_library)
next
  case (Inr u)
  have "library_json (snd (upload_single e (up_file rq) d)) = Some db"
    using assms by (simp add: upload_single_library)
  from upload_handler_files_typed [OF this assms(2)] show ?thesis
    using Inr by (simp add: upload_item_snd)
qed

lemma delete_library:
  assumes "library_json d = Some db"
  shows "library_json (snd (delete_item e ident d)) = Some db \<or>
    (\<exists>k db'. findIndex (\<lambda>i. item_id i = ident) (items db) = Some k \<and>
      library_json (snd (delete_item e ident d)) = Some db' \<and>
      items db' = take k (items db) @ drop (Suc k) (items db) \<and>
      totalItems (stats db') = totalItems (stats db) - 1 \<and>
      totalFiles (stats db') = totalFiles (stats db) - (if has_file (items db ! k) then 1 else 0) \<and>
      totalLinks (stats db') = totalLinks (stats db) - (if item_type (items db ! k) = ''link'' then 1 else 0) \<and>
      totalSize (stats db') = totalSize (stats db) - file_size (items db ! k))"
proof (cases "findIndex (\<lambda>i. item_id i = ident) (items db)")
  case None
  then show ?thesis using assms by (simp add: delete_item_def loadDB_def)
next
  case (Some k)
  show ?thesis
  proof (cases "item_file (items db ! k)")
    case None
    then show ?thesis using assms Some
      by (simp add: delete_item_def Let_def loadDB_def saveDB_def has_file_def file_size_def)
  next
    case (Some fi)
    then show ?thesis using assms \<open>findIndex (\<lambda>i. item_id i = ident) (items db) = Some k\<close>
      by (simp add: delete_item_def Let_def loadDB_def saveDB_def has_file_def file_size_def)
  qed
qed

lemma stats_ok_splice:
  assumes "stats_ok db" "k < length (items db)"
    and "items db' = take k (items db) @ drop (Suc k) (items db)"
    and "totalItems (stats db') = totalItems (stats db) - 1"
    and "totalFiles (stats db') = totalFiles (stats db) - (if has_file (items db ! k) then 1 else 0)"
    and "totalLinks (stats db') = totalLinks (stats db) - (if item_type (items db ! k) = ''link'' then 1 else 0)"
    and "totalSize (stats db') = totalSize (stats db) - file_size (items db ! k)"
  shows "stats_ok db'"
proof -
  have len: "int (length (items db')) = int (length (items db)) - 1"
    using assms(2,3) by simp
  have files: "count_where has_file (items db') = count_where has_file (items db) - (if has_file (items db ! k) then 1 else 0)"
    using assms(3) count_where_splice [OF assms(2)] by simp
  have links: "count_where (\<lambda>i. item_type i = ''link'') (items db') =
      count_where (\<lambda>i. item_type i = ''link'') (items db) - (if item_type (items db ! k) = ''link'' then 1 else 0)"
    using assms(3) count_where_splice [OF assms(2)] by simp
  have sizes: "sum_list (map file_size (items db')) = sum_list (map file_size (items db)) - file_size (items db ! k)"
    using sum_splice [OF assms(2), of file_size] by (simp only: assms(3))
  from assms(1) have "totalItems (stats db) = int (length (items db))"
    and "totalFiles (stats db) = count_where has_file (items db)"
    and "totalLinks (stats db) = count_where (\<lambda>i. item_type i = ''link'') (items db)"
    and "totalSize (stats db) = sum_list (map file_size (items db))"
    by (simp_all add: stats_ok_def)
  then show ?thesis
    unfolding stats_ok_def using len files links sizes assms(4-7) by simp
qed

lemma delete_stats_ok:
  assumes "library_json d = Some db" "stats_ok db"
  shows "\<exists>db'. library_json (snd (delete_item e ident d)) = Some db' \<and> stats_ok db'"
proof -
  from delete_library [OF assms(1), of e ident] show ?thesis
  proof
    assume "library_json (snd (delete_item e ident d)) = Some db"
    with assms(2) show ?thesis by blast
  next
    assume "\<exists>k db'. findIndex (\<lambda>i. item_id i = ident) (items db) = Some k \<and>
      library_json (snd (delete_item e ident d)) = Some db' \<and>
      items db' = take k (items db) @ drop (Suc k) (items db) \<and>
      totalItems (stats db') = totalItems (stats db) - 1 \<and>
      totalFiles (stats db') = totalFiles (stats db) - (if has_file (items db ! k) then 1 else 0) \<and>
      totalLinks (stats db') = totalLinks (stats db) - (if item_type (items db ! k) = ''link'' then 1 else 0) \<and>
      totalSize (stats db') = totalSize (stats db) - file_size (items db ! k)"
    then obtain k db' where k: "findIndex (\<lambda>i. item_id i = ident) (items db) = Some k"
      and db': "library_json (snd (delete_item e ident d)) = Some db'"
      and rest: "items db' = take k (items db) @ drop (Suc k) (items db)"
        "totalItems (stats db') = totalItems (stats db) - 1"
        "totalFiles (stats db') = totalFiles (stats db) - (if has_file (items db ! k) then 1 else 0)"
        "totalLinks (stats db') = totalLinks (stats db) - (if item_type (items db ! k) = ''link'' then 1 else 0)"
        "totalSize (stats db') = totalSize (stats db) - file_size (items db ! k)"
      by blast
    from findIndex_Some [OF k] have "k < length (items db)" by simp
    from stats_ok_splice [OF assms(2) this rest] db' show ?thesis by blast
  qed
qed

lemma files_typed_splice:
  assumes "files_typed db" "items db' = take k (items db) @ drop (Suc k) (items db)"
  shows "files_typed db'"
  using assms by (auto simp: files_typed_def list_all_iff dest: in_set_takeD in_set_dropD)

lemma delete_files_typed:
  assumes "library_json d = Some db" "files_typed db"
  shows "\<exists>db'. library_json (snd (delete_item e ident d)) = Some db' \<and> files_typed db'"
  using delete_library [OF assms(1), of e ident] assms(2)
  by (blast intro: files_typed_splice)

lemma run_op_stats_ok:
  assumes "library_json d = Some db" "stats_ok db"
  shows "\<exists>db'. library_json (run_op e x d) = Some db' \<and> stats_ok db'"
  using assms
  by (cases x) (simp_all add: run_op_def create_stats_ok upload_stats_ok delete_stats_ok)

lemma run_op_files_typed:
  assumes "library_json d = Some db" "files_typed db" "creates_no_file_type x"
  shows "\<exists>db'. library_json (run_op e x d) = Some db' \<and> files_typed db'"
  using assms
  by (cases x)
    (simp_all add: run_op_def creates_no_file_type_def create_files_typed upload_files_typed
      delete_files_typed)

lemma run_ops_stats_ok:
  assumes "library_json d = Some db" "stats_ok db"
  shows "\<exists>db'. library_json (run_ops ops d) = Some db' \<and> stats_ok db'"
  using assms
proof (induction ops arbitrary: d db)
  case Nil
  then show ?case by simp
next
  case (Cons p ops)
  obtain e x where p: "p = (e, x)" by (cases p)
  from run_op_stats_ok [OF Cons.prems, of e x]
  obtain db1 where "library_json (run_op e x d) = Some db1" "stats_ok db1" by blast
  from Cons.IH [OF this] show ?case by (simp add: p)
qed

lemma run_ops_files_typed:
  assumes "library_json d = Some db" "files_typed db" "list_all (\<lambda>p. creates_no_file_type (snd p)) ops"
  shows "\<exists>db'. library_json (run_ops ops d) = Some db' \<and> files_typed db'"
  using assms
proof (induction ops arbitrary: d db)
  case Nil
  then show ?case by simp
next
  case (Cons p ops)
  obtain e x where p: "p = (e, x)" by (cases p)
  from Cons.prems p have x: "creates_no_file_type x" and rest: "list_all (\<lambda>p. creates_no_file_type (snd p)) ops"
    by simp_all
  from run_op_files_typed [OF Cons.prems(1,2) x, of e]
  obtain db1 where "library_json (run_op e x d) = Some db1" "files_typed db1" by blast
  from Cons.IH [OF this rest] show ?case by (simp add: p)
qed

lemma files_typed_count:
  assumes "files_typed db"
  shows "count_where has_file (items db) = count_where (\<lambda>i. item_type i = ''file'') (items db)"
proof -
  from assms have "filter has_file (items db) = filter (\<lambda>i. item_type i = ''file'') (items db)"
    by (intro filter_cong) (auto simp: files_typed_def list_all_iff)
  then show ?thesis by (simp add: count_where_def)
qed

lemmas text_eval = char_of_def bit_0 digit_char_def hex_string_def hex_byte_def randomBytes_def
  generateId_def upt_rec radix_string.simps

lemmas part_eval = basename_def is_separator_def toLowerCase_def lower_char_def is_upper_def
  is_upper_latin1_def

lemma generateId_env0: "generateId env0 0 0 = ''50a1a2a3a''"
  by (simp add: env0_def text_eval)

text \<open>
  C1, as the code has it. Start from the empty library and play any sequence of create,
  upload and delete requests, whatever their environments. The document on disk then has
  \<open>totalItems\<close> equal to the number of items, \<open>totalFiles\<close> equal to the number of items
  that carry a \<open>file\<close> record, \<open>totalLinks\<close> equal to the number of items of type \<open>link\<close>
  and \<open>totalSize\<close> equal to the sum of the sizes of the \<open>file\<close> records. \<open>totalFiles\<close> is
  also the number of items of type \<open>file\<close> when no create request of the sequence asked
  for the type \<open>file\<close> itself.
\<close>

theorem stats_equal_rescan:
  assumes "library_json d0 = Some (empty_db t)"
  shows "\<exists>db. library_json (run_ops ops d0) = Some db \<and>
           totalItems (stats db) = int (length (items db)) \<and>
           totalFiles (stats db) = count_where has_file (items db) \<and>
           totalLinks (stats db) = count_where (\<lambda>i. item_type i = ''link'') (items db) \<and>
           totalSize (stats db) = sum_list (map file_size (items db)) \<and>
           (list_all (\<lambda>p. creates_no_file_type (snd p)) ops \<longrightarrow>
              totalFiles (stats db) = count_where (\<lambda>i. item_type i = ''file'') (items db))"
proof -
  have ok0: "stats_ok (empty_db t)"
    by (simp add: stats_ok_def empty_db_def count_where_def)
  have ty0: "files_typed (empty_db t)"
    by (simp add: files_typed_def empty_db_def)
  from run_ops_stats_ok [OF assms ok0, of ops]
  obtain db where db: "library_json (run_ops ops d0) = Some db" and ok: "stats_ok db" by blast
  have "totalFiles (stats db) = count_where (\<lambda>i. item_type i = ''file'') (items db)"
    if "list_all (\<lambda>p. creates_no_file_type (snd p)) ops"
  proof -
    from run_ops_files_typed [OF assms ty0 that] db have "files_typed db" by auto
    then show ?thesis using ok by (simp add: stats_ok_def files_typed_count)
  qed
  with db ok show ?thesis by (auto simp: stats_ok_def)
qed

text \<open>
  The sequence \<open>ops0\<close>: a link is created, a PDF of 8 bytes uploaded, a note created and
  the link deleted. Two items are left, one of them a file.
\<close>

lemma ops0_no_file_type: "list_all (\<lambda>p. creates_no_file_type (snd p)) ops0"
  by (simp add: ops0_def creates_no_file_type_def no_body_def)

lemma ops0_items: "map title (items (the (library_json (run_ops ops0 disk0)))) = [''Memo'', ''report 1.pdf'']"
  by (simp add: ops0_def run_op_def create_item_def upload_item_def upload_single_def
      store_blob_def upload_handler_def delete_item_def Let_def loadDB_def saveDB_def
      disk0_def empty_db_def no_body_def given_def fileFilter_def allowedTypes_def
      fileSize_limit_def report_pdf_def new_item_def uploaded_item_def
      or_else_def no_upload_body_def env0_def text_eval part_eval)

theorem stats_equal_rescan_witness:
  "library_json disk0 = Some (empty_db 0) \<and>
   list_all (\<lambda>p. creates_no_file_type (snd p)) ops0 \<and>
   map title (items (the (library_json (run_ops ops0 disk0)))) = [''Memo'', ''report 1.pdf''] \<and>
   (\<exists>db. library_json (run_ops ops0 disk0) = Some db \<and>
      totalItems (stats db) = 2 \<and>
      totalFiles (stats db) = count_where has_file (items db) \<and>
      totalLinks (stats db) = count_where (\<lambda>i. item_type i = ''link'') (items db) \<and>
      totalSize (stats db) = sum_list (map file_size (items db)) \<and>
      totalFiles (stats db) = count_where (\<lambda>i. item_type i = ''file'') (items db))"
proof -
  have d0: "library_json disk0 = Some (empty_db 0)"
    by (simp add: disk0_def)
  from stats_equal_rescan [OF d0, of ops0] ops0_no_file_type
  obtain db where db: "library_json (run_ops ops0 disk0) = Some db"
    and facts: "totalItems (stats db) = int (length (items db))"
      "totalFiles (stats db) = count_where has_file (items db)"
      "totalLinks (stats db) = count_where (\<lambda>i. item_type i = ''link'') (items db)"
      "totalSize (stats db) = sum_list (map file_size (items db))"
      "totalFiles (stats db) = count_where (\<lambda>i. item_type i = ''file'') (items db)"
    by blast
  from ops0_items db have "map title (items db) = [''Memo'', ''report 1.pdf'']"
    by simp
  then have "length (map title (items db)) = 2"
    by simp
  then have "totalItems (stats db) = 2"
    using facts(1) by simp
  with d0 ops0_no_file_type ops0_items db facts show ?thesis
    by blast
qed

text \<open>
  C1 as stated fails: a create request may ask for the type \<open>file\<close>. The request succeeds,
  the scan then finds one item of type \<open>file\<close>, and \<open>totalFiles\<close> is still 0.
\<close>

theorem stats_equal_rescan_counterexample:
  "\<exists>it db. create_item env0 (no_body\<lparr>b_title := Some ''Scan'', b_type := Some ''file''\<rparr>) disk0
             = (Inr it, disk0\<lparr>library_json := Some db\<rparr>) \<and>
           library_json (run_ops [(env0, Create (no_body\<lparr>b_title := Some ''Scan'', b_type := Some ''file''\<rparr>))] disk0)
             = Some db \<and>
           totalFiles (stats db) = 0 \<and>
           count_where (\<lambda>i. item_type i = ''file'') (items db) = 1"
  by (simp add: run_op_def create_item_def Let_def loadDB_def saveDB_def disk0_def
      empty_db_def no_body_def given_def new_item_def or_else_def env0_def count_where_def)

section \<open>Reads count views\<close>

lemma findIndex_find:
  "find P xs = (case findIndex P xs of None \<Rightarrow> None | Some k \<Rightarrow> Some (xs ! k))"
  by (induction xs) (auto split: option.splits)

lemma findIndex_update:
  assumes "findIndex P xs = Some k" "P y"
  shows "findIndex P (xs[k := y]) = Some k"
  using assms
proof (induction xs arbitrary: k)
  case Nil
  then show ?case by simp
next
  case (Cons x xs)
  show ?case
  proof (cases "P x")
    case True
    with Cons.prems show ?thesis by simp
  next
    case False
    with Cons.prems obtain j where j: "findIndex P xs = Some j" "k = Suc j"
      by (auto split: if_splits)
    from Cons.IH [OF j(1) Cons.prems(2)] False j show ?thesis by simp
  qed
qed

lemma get_item_found:
  assumes "library_json d = Some db"
    and "findIndex (\<lambda>i. item_id i = ident) (items db) = Some k"
    and "write_ok e"
  shows "get_item e ident d =
           (Inr ((items db ! k)\<lparr>views := Suc (views (items db ! k))\<rparr>),
            d\<lparr>library_json :=
                Some (db\<lparr>items := (items db)[k := (items db ! k)\<lparr>views := Suc (views (items db ! k))\<rparr>]\<rparr>)\<rparr>)"
  using assms by (simp add: get_item_def loadDB_def saveDB_def Let_def)

lemma get_many_views:
  assumes "library_json d = Some db"
    and "findIndex (\<lambda>i. item_id i = ident) (items db) = Some k"
    and "views (items db ! k) = v"
    and "list_all write_ok es"
  shows "map views_of (fst (get_many es ident d)) = map Some [Suc v ..< Suc v + length es] \<and>
         stored_views ident (snd (get_many es ident d)) = Some (v + length es)"
  using assms
proof (induction es arbitrary: d db v)
  case Nil
  then show ?case by (simp add: stored_views_def findIndex_find)
next
  case (Cons e es)
  let ?it = "(items db ! k)\<lparr>views := Suc (views (items db ! k))\<rparr>"
  let ?db = "db\<lparr>items := (items db)[k := ?it]\<rparr>"
  let ?d = "d\<lparr>library_json := Some ?db\<rparr>"
  from Cons.prems have e: "write_ok e" and es: "list_all write_ok es" by simp_all
  have step: "get_item e ident d = (Inr ?it, ?d)"
    using get_item_found [OF Cons.prems(1,2) e] .
  from findIndex_Some [OF Cons.prems(2)] have k: "k < length (items db)" "item_id (items db ! k) = ident"
    by simp_all
  have lib: "library_json ?d = Some ?db" by simp
  have idx: "findIndex (\<lambda>i. item_id i = ident) (items ?db) = Some k"
    using findIndex_update [OF Cons.prems(2), of ?it] k by simp
  have v': "views (items ?db ! k) = Suc v"
    using k Cons.prems(3) by simp
  from Cons.IH [OF lib idx v' es]
  have IH: "map views_of (fst (get_many es ident ?d)) = map Some [Suc (Suc v) ..< Suc (Suc v) + length es]"
    "stored_views ident (snd (get_many es ident ?d)) = Some (Suc v + length es)"
    by simp_all
  have gm: "fst (get_many (e # es) ident d) = Inr ?it # fst (get_many es ident ?d)"
    "snd (get_many (e # es) ident d) = snd (get_many es ident ?d)"
    using step by (simp_all split: prod.splits)
  have "Suc v < Suc v + length (e # es)" by simp
  then have range: "[Suc v ..< Suc v + length (e # es)] = Suc v # [Suc (Suc v) ..< Suc (Suc v) + length es]"
    by (simp only: upt_conv_Cons) simp
  have "views_of (Inr ?it) = Some (Suc v)"
    using Cons.prems(3) by (simp add: views_of_def)
  then have "map views_of (fst (get_many (e # es) ident d)) = map Some [Suc v ..< Suc v + length (e # es)]"
    by (simp only: gm range IH list.map)
  moreover have "stored_views ident (snd (get_many (e # es) ident d)) = Some (v + length (e # es))"
    by (simp only: gm IH) simp
  ultimately show ?case by blast
qed

lemma create_item_ok:
  assumes "library_json d = Some db" "given (b_title b)" "write_ok e"
  shows "create_item e b d =
           (Inr (new_item e b (the (b_title b))),
            d\<lparr>library_json :=
                Some (db\<lparr>items := new_item e b (the (b_title b)) # items db,
                         stats := (stats db)\<lparr>totalItems := totalItems (stats db) + 1,
                                    totalLinks := totalLinks (stats db) + (if b_type b = Some ''link'' then 1 else 0)\<rparr>,
                         lastUpdated := clock e 2\<rparr>)\<rparr>)"
  using assms by (simp add: create_item_def loadDB_def saveDB_def Let_def)

text \<open>
  C2, as the code has it. An item is created with \<open>views = 0\<close>. A read increments the
  counter before it answers, so the reads that follow the create return 1, 2, 3, ... (each
  one more than the read before), and after \<open>n\<close> reads the document on disk holds \<open>n\<close>.
  This is for requests whose write of the document succeeds.
\<close>

theorem reads_count_from_one:
  assumes "library_json d = Some db" and "given (b_title b)" and "write_ok e"
    and "list_all write_ok es"
  shows "\<exists>it d1. create_item e b d = (Inr it, d1) \<and> views it = 0 \<and>
           stored_views (item_id it) d1 = Some 0 \<and>
           map views_of (fst (get_many es (item_id it) d1)) = map Some [1 ..< Suc (length es)] \<and>
           stored_views (item_id it) (snd (get_many es (item_id it) d1)) = Some (length es)"
proof -
  let ?it = "new_item e b (the (b_title b))"
  let ?db = "db\<lparr>items := ?it # items db,
                 stats := (stats db)\<lparr>totalItems := totalItems (stats db) + 1,
                            totalLinks := totalLinks (stats db) + (if b_type b = Some ''link'' then 1 else 0)\<rparr>,
                 lastUpdated := clock e 2\<rparr>"
  let ?d = "d\<lparr>library_json := Some ?db\<rparr>"
  have created: "create_item e b d = (Inr ?it, ?d)"
    using create_item_ok [OF assms(1-3)] .
  have v0: "views ?it = 0" by (simp add: new_item_def)
  have lib: "library_json ?d = Some ?db" by simp
  have idx: "findIndex (\<lambda>i. item_id i = item_id ?it) (items ?db) = Some 0" by simp
  have at0: "views (items ?db ! 0) = 0" by (simp add: new_item_def)
  have s0: "stored_views (item_id ?it) ?d = Some 0"
    by (simp add: stored_views_def new_item_def)
  from get_many_views [OF lib idx at0 assms(4)] created v0 s0 show ?thesis
    by simp
qed

theorem reads_count_from_one_witness:
  "library_json disk0 = Some (empty_db 0) \<and> given (Some ''Kyiv'') \<and> write_ok env0 \<and>
   list_all write_ok [env0, env0, env0] \<and>
   (\<exists>it d1. create_item env0 (no_body\<lparr>b_title := Some ''Kyiv''\<rparr>) disk0 = (Inr it, d1) \<and>
      views it = 0 \<and> item_id it = ''50a1a2a3a'' \<and>
      map views_of (fst (get_many [env0, env0, env0] (item_id it) d1)) = [Some 1, Some 2, Some 3] \<and>
      stored_views (item_id it) (snd (get_many [env0, env0, env0] (item_id it) d1)) = Some 3)"
proof -
  have h: "library_json disk0 = Some (empty_db 0)" "given (b_title (no_body\<lparr>b_title := Some ''Kyiv''\<rparr>))"
    "write_ok env0" "list_all write_ok [env0, env0, env0]"
    by (simp_all add: disk0_def given_def env0_def)
  from reads_count_from_one [OF h]
  obtain it d1 where r: "create_item env0 (no_body\<lparr>b_title := Some ''Kyiv''\<rparr>) disk0 = (Inr it, d1)"
    "views it = 0"
    "map views_of (fst (get_many [env0, env0, env0] (item_id it) d1)) = map Some [1 ..< Suc (length [env0, env0, env0])]"
    "stored_views (item_id it) (snd (get_many [env0, env0, env0] (item_id it) d1)) = Some (length [env0, env0, env0])"
    by blast
  from r(1) have "it = new_item env0 (no_body\<lparr>b_title := Some ''Kyiv''\<rparr>) ''Kyiv''"
    by (simp add: create_item_def Let_def loadDB_def saveDB_def disk0_def given_def env0_def)
  then have ident: "item_id it = ''50a1a2a3a''"
    by (simp add: new_item_def generateId_env0)
  have "map Some [1 ..< Suc (length [env0, env0, env0])] = [Some 1, Some 2, Some (3::nat)]"
    by (simp add: upt_rec)
  with r ident h show ?thesis
    by (simp add: given_def)
qed

text \<open>
  C2 as stated fails at the first read: it returns the item with \<open>views = 1\<close>, not 0.
\<close>

theorem first_read_counterexample:
  "\<exists>it d1 it1 d2. create_item env0 (no_body\<lparr>b_title := Some ''Kyiv''\<rparr>) disk0 = (Inr it, d1) \<and>
     views it = 0 \<and>
     get_item env0 (item_id it) d1 = (Inr it1, d2) \<and>
     views it1 = 1"
  by (simp add: create_item_def get_item_def Let_def loadDB_def saveDB_def disk0_def
      given_def env0_def no_body_def new_item_def)

section \<open>What an update changes\<close>

lemma apply_fields_changed:
  "title (apply_fields b it) = (case b_title b of None \<Rightarrow> title it | Some v \<Rightarrow> v)"
  "description (apply_fields b it) = (case b_description b of None \<Rightarrow> description it | Some v \<Rightarrow> Some v)"
  "category (apply_fields b it) = (case b_category b of None \<Rightarrow> category it | Some v \<Rightarrow> v)"
  "tags (apply_fields b it) = (case b_tags b of None \<Rightarrow> tags it | Some v \<Rightarrow> Some v)"
  "country (apply_fields b it) = (case b_country b of None \<Rightarrow> country it | Some v \<Rightarrow> Some v)"
  "source (apply_fields b it) = (case b_source b of None \<Rightarrow> source it | Some v \<Rightarrow> Some v)"
  "content (apply_fields b it) = (case b_content b of None \<Rightarrow> content it | Some v \<Rightarrow> Some v)"
  "starred (apply_fields b it) = (case b_starred b of None \<Rightarrow> starred it | Some v \<Rightarrow> v)"
  by (simp_all add: apply_fields_def Let_def split: option.splits)

lemma apply_fields_kept:
  "item_id (apply_fields b it) = item_id it"
  "item_type (apply_fields b it) = item_type it"
  "fileType (apply_fields b it) = fileType it"
  "url (apply_fields b it) = url it"
  "item_file (apply_fields b it) = item_file it"
  "textPreview (apply_fields b it) = textPreview it"
  "created (apply_fields b it) = created it"
  "updated (apply_fields b it) = updated it"
  "views (apply_fields b it) = views it"
  by (simp_all add: apply_fields_def Let_def split: option.splits)

lemma update_item_found:
  assumes "library_json d = Some db"
    and "findIndex (\<lambda>i. item_id i = ident) (items db) = Some k"
    and "write_ok e"
  shows "update_item e ident b d =
           (Inr ((apply_fields b (items db ! k))\<lparr>updated := Some (clock e 0)\<rparr>),
            d\<lparr>library_json :=
                Some (db\<lparr>items := (items db)[k := (apply_fields b (items db ! k))\<lparr>updated := Some (clock e 0)\<rparr>],
                         lastUpdated := clock e 1\<rparr>)\<rparr>)"
  using assms by (simp add: update_item_def loadDB_def saveDB_def Let_def)

text \<open>
  C5, as the code has it. The item updated is the first one with the id, at index \<open>k\<close>.
  Of the fields of the body the handler reads eight: \<open>title\<close>, \<open>description\<close>,
  \<open>category\<close>, \<open>tags\<close>, \<open>country\<close>, \<open>source\<close>, \<open>content\<close> and \<open>starred\<close>. Each of them
  is overwritten when the body has it and kept when it has not. Every other field of the
  item keeps its value whatever the body holds: the id, the type, the file type, the
  url, the file record, the preview, \<open>created\<close> and \<open>views\<close>. \<open>updated\<close> becomes the time of
  the request. The other items of the document are as before, and with a write that
  succeeds the document on disk is the updated one.
\<close>

theorem update_changes_given_fields:
  assumes "library_json d = Some db"
    and "findIndex (\<lambda>i. item_id i = ident) (items db) = Some k"
    and "write_ok e"
  shows "\<exists>it db'. update_item e ident b d = (Inr it, d\<lparr>library_json := Some db'\<rparr>) \<and>
           items db' = (items db)[k := it] \<and> stats db' = stats db \<and>
           title it = (case b_title b of None \<Rightarrow> title (items db ! k) | Some v \<Rightarrow> v) \<and>
           description it = (case b_description b of None \<Rightarrow> description (items db ! k) | Some v \<Rightarrow> Some v) \<and>
           category it = (case b_category b of None \<Rightarrow> category (items db ! k) | Some v \<Rightarrow> v) \<and>
           tags it = (case b_tags b of None \<Rightarrow> tags (items db ! k) | Some v \<Rightarrow> Some v) \<and>
           country it = (case b_country b of None \<Rightarrow> country (items db ! k) | Some v \<Rightarrow> Some v) \<and>
           source it = (case b_source b of None \<Rightarrow> source (items db ! k) | Some v \<Rightarrow> Some v) \<and>
           content it = (case b_content b of None \<Rightarrow> content (items db ! k) | Some v \<Rightarrow> Some v) \<and>
           starred it = (case b_starred b of None \<Rightarrow> starred (items db ! k) | Some v \<Rightarrow> v) \<and>
           item_id it = item_id (items db ! k) \<and>
           item_type it = item_type (items db ! k) \<and>
           fileType it = fileType (items db ! k) \<and>
           url it = url (items db ! k) \<and>
           item_file it = item_file (items db ! k) \<and>
           textPreview it = textPreview (items db ! k) \<and>
           created it = created (items db ! k) \<and>
           views it = views (items db ! k) \<and>
           updated it = Some (clock e 0)"
proof -
  let ?it = "(apply_fields b (items db ! k))\<lparr>updated := Some (clock e 0)\<rparr>"
  let ?db = "db\<lparr>items := (items db)[k := ?it], lastUpdated := clock e 1\<rparr>"
  have "update_item e ident b d = (Inr ?it, d\<lparr>library_json := Some ?db\<rparr>)"
    using update_item_found [OF assms] .
  moreover have "items ?db = (items db)[k := ?it]" "stats ?db = stats db"
    by simp_all
  moreover have "title ?it = (case b_title b of None \<Rightarrow> title (items db ! k) | Some v \<Rightarrow> v)"
    "description ?it = (case b_description b of None \<Rightarrow> description (items db ! k) | Some v \<Rightarrow> Some v)"
    "category ?it = (case b_category b of None \<Rightarrow> category (items db ! k) | Some v \<Rightarrow> v)"
    "tags ?it = (case b_tags b of None \<Rightarrow> tags (items db ! k) | Some v \<Rightarrow> Some v)"
    "country ?it = (case b_country b of None \<Rightarrow> country (items db ! k) | Some v \<Rightarrow> Some v)"
    "source ?it = (case b_source b of None \<Rightarrow> source (items db ! k) | Some v \<Rightarrow> Some v)"
    "content ?it = (case b_content b of None \<Rightarrow> content (items db ! k) | Some v \<Rightarrow> Some v)"
    "starred ?it = (case b_starred b of None \<Rightarrow> starred (items db ! k) | Some v \<Rightarrow> v)"
    by (simp_all add: apply_fields_changed)
  moreover have "item_id ?it = item_id (items db ! k)"
    "item_type ?it = item_type (items db ! k)"
    "fileType ?it = fileType (items db ! k)"
    "url ?it = url (items db ! k)"
    "item_file ?it = item_file (items db ! k)"
    "textPreview ?it = textPreview (items db ! k)"
    "created ?it = created (items db ! k)"
    "views ?it = views (items db ! k)"
    "updated ?it = Some (clock e 0)"
    by (simp_all add: apply_fields_kept)
  ultimately show ?thesis by blast
qed

lemma kyiv_item:
  "new_item env0 (no_body\<lparr>b_title := Some ''Kyiv'', b_url := Some ''http://a.example''\<rparr>) ''Kyiv'' = kyiv"
  by (simp add: new_item_def generateId_env0 or_else_def or_null_def no_body_def kyiv_def)
    (simp add: env0_def)

lemma kyiv_disk_library:
  "library_json kyiv_disk =
     Some \<lparr>items = [kyiv],
           stats = \<lparr>totalItems = 1, totalFiles = 0, totalLinks = 0, totalSize = 0\<rparr>,
           lastUpdated = 7\<rparr>"
proof -
  have "library_json kyiv_disk =
     Some \<lparr>items = [new_item env0 (no_body\<lparr>b_title := Some ''Kyiv'', b_url := Some ''http://a.example''\<rparr>) ''Kyiv''],
           stats = \<lparr>totalItems = 1, totalFiles = 0, totalLinks = 0, totalSize = 0\<rparr>,
           lastUpdated = 7\<rparr>"
    by (simp add: kyiv_disk_def create_item_def Let_def loadDB_def saveDB_def disk0_def
        empty_db_def given_def env0_def no_body_def)
  then show ?thesis by (simp only: kyiv_item)
qed

theorem update_changes_given_fields_witness:
  "library_json kyiv_disk \<noteq> None \<and>
   findIndex (\<lambda>i. item_id i = ''50a1a2a3a'') (items (the (library_json kyiv_disk))) = Some 0 \<and>
   write_ok (env0\<lparr>clock := (\<lambda>k. 40 + k)\<rparr>) \<and>
   (\<exists>it d'. update_item (env0\<lparr>clock := (\<lambda>k. 40 + k)\<rparr>) ''50a1a2a3a''
               (no_body\<lparr>b_title := Some ''Kyiv, revised'', b_starred := Some True\<rparr>) kyiv_disk = (Inr it, d') \<and>
      title it = ''Kyiv, revised'' \<and> starred it = True \<and> updated it = Some 40 \<and>
      item_id it = ''50a1a2a3a'' \<and> created it = 6 \<and> url it = Some ''http://a.example'' \<and>
      category it = ''other'' \<and> views it = 0)"
proof -
  let ?db = "the (library_json kyiv_disk)"
  let ?e = "env0\<lparr>clock := (\<lambda>k. 40 + k)\<rparr>"
  let ?b = "no_body\<lparr>b_title := Some ''Kyiv, revised'', b_starred := Some True\<rparr>"
  have h: "library_json kyiv_disk = Some ?db"
    "findIndex (\<lambda>i. item_id i = ''50a1a2a3a'') (items ?db) = Some 0"
    "write_ok ?e"
    by (simp_all add: kyiv_disk_library kyiv_def env0_def)
  have old: "items ?db ! 0 = kyiv"
    by (simp add: kyiv_disk_library)
  from update_changes_given_fields [OF h, of ?b]
  obtain it db' where r: "update_item ?e ''50a1a2a3a'' ?b kyiv_disk = (Inr it, kyiv_disk\<lparr>library_json := Some db'\<rparr>)"
    "title it = (case b_title ?b of None \<Rightarrow> title (items ?db ! 0) | Some v \<Rightarrow> v)"
    "starred it = (case b_starred ?b of None \<Rightarrow> starred (items ?db ! 0) | Some v \<Rightarrow> v)"
    "category it = (case b_category ?b of None \<Rightarrow> category (items ?db ! 0) | Some v \<Rightarrow> v)"
    "item_id it = item_id (items ?db ! 0)"
    "url it = url (items ?db ! 0)"
    "created it = created (items ?db ! 0)"
    "views it = views (items ?db ! 0)"
    "updated it = Some (clock ?e 0)"
    by blast
  from r(2-9) have "title it = ''Kyiv, revised''" "starred it = True" "updated it = Some 40"
    "item_id it = ''50a1a2a3a''" "created it = 6" "url it = Some ''http://a.example''"
    "category it = ''other''" "views it = 0"
    unfolding old by (simp_all add: kyiv_def no_body_def env0_def)
  with r(1) h show ?thesis by (simp add: kyiv_disk_library)
qed

text \<open>
  C5 as stated fails for a field the handler does not read: a body that holds \<open>url\<close> is
  answered with success and the url of the item is the old one.
\<close>

theorem update_url_counterexample:
  "\<exists>it d'. update_item env0 ''50a1a2a3a'' (no_body\<lparr>b_url := Some ''http://b.example''\<rparr>) kyiv_disk = (Inr it, d') \<and>
     url it = Some ''http://a.example'' \<and>
     url it \<noteq> b_url (no_body\<lparr>b_url := Some ''http://b.example''\<rparr>)"
  by (simp add: update_item_def Let_def loadDB_def saveDB_def kyiv_disk_library kyiv_def
      apply_fields_def no_body_def env0_def)

section \<open>Categories\<close>

lemma lower_char_upper: "is_upper c \<Longrightarrow> is_lower (lower_char c)"
  by (simp add: is_upper_def is_lower_def lower_char_def)

lemma lower_char_latin1:
  assumes "is_upper_latin1 c"
  shows "\<not> is_lower (lower_char c)" "\<not> is_digit (lower_char c)"
    "\<not> is_lower c" "\<not> is_digit c" "\<not> is_upper c"
proof -
  from assms have range: "192 \<le> (of_char c :: nat)" "(of_char c :: nat) \<le> 222"
    by (simp_all add: is_upper_latin1_def)
  then have "(of_char (char_of ((of_char c :: nat) + 32)) :: nat) = of_char c + 32"
    by (simp add: of_char_of)
  with range assms show "\<not> is_lower (lower_char c)" "\<not> is_digit (lower_char c)"
    by (simp_all add: lower_char_def is_lower_def is_digit_def)
  from range show "\<not> is_lower c" "\<not> is_digit c" "\<not> is_upper c"
    by (simp_all add: is_lower_def is_digit_def is_upper_def)
qed

lemma slug_char_lower: "slug_char (lower_char c) = slug_of_char c"
proof (cases "is_upper c")
  case True
  then show ?thesis
    using lower_char_upper [OF True] by (simp add: slug_char_def slug_of_char_def)
next
  case False
  show ?thesis
  proof (cases "is_upper_latin1 c")
    case True
    from lower_char_latin1 [OF True] show ?thesis
      by (simp add: slug_char_def slug_of_char_def)
  next
    case no: False
    with False show ?thesis by (simp add: slug_char_def slug_of_char_def lower_char_def)
  qed
qed

lemma slug_by_char: "slug name = map slug_of_char name"
  by (simp add: slug_def toLowerCase_def slug_char_lower)

lemma add_category_ok:
  assumes "cb_name b = Some name" "write_ok e"
  shows "add_category e b d =
           (Inr \<lparr>cat_id = slug name, cat_name = name, icon = or_else (cb_icon b) default_icon,
                  color = or_else (cb_color b) ''#666666''\<rparr>,
            d\<lparr>categories_json :=
                Some (list_categories d @
                      [\<lparr>cat_id = slug name, cat_name = name, icon = or_else (cb_icon b) default_icon,
                         color = or_else (cb_color b) ''#666666''\<rparr>])\<rparr>)"
  using assms by (simp add: add_category_def list_categories_def loadDB_def saveDB_def Let_def)

text \<open>
  C7, as the code has it. The id of the new category is the name in lower case with every
  character other than \<open>a\<close>..\<open>z\<close> and \<open>0\<close>..\<open>9\<close> replaced by a hyphen, and the category is
  pushed on the end of the list. Nothing is looked up by id: the same name submitted again
  is pushed again, so the list then holds both entries, with the same id, after all the
  earlier ones. (Requests whose write succeeds.)
\<close>

theorem category_slug_pushed:
  assumes "cb_name b = Some name" and "write_ok e" and "write_ok e'"
  shows "\<exists>c d1 c' d2.
           add_category e b d = (Inr c, d1) \<and>
           cat_id c = map slug_char (toLowerCase name) \<and>
           cat_id c = map slug_of_char name \<and>
           cat_name c = name \<and>
           list_categories d1 = list_categories d @ [c] \<and>
           add_category e' b d1 = (Inr c', d2) \<and>
           cat_id c' = cat_id c \<and>
           list_categories d2 = list_categories d @ [c, c']"
proof -
  let ?c = "\<lparr>cat_id = slug name, cat_name = name, icon = or_else (cb_icon b) default_icon,
             color = or_else (cb_color b) ''#666666''\<rparr>"
  let ?d1 = "d\<lparr>categories_json := Some (list_categories d @ [?c])\<rparr>"
  let ?d2 = "?d1\<lparr>categories_json := Some (list_categories ?d1 @ [?c])\<rparr>"
  have first: "add_category e b d = (Inr ?c, ?d1)"
    using add_category_ok [OF assms(1,2)] .
  have second: "add_category e' b ?d1 = (Inr ?c, ?d2)"
    using add_category_ok [OF assms(1,3)] .
  have l1: "list_categories ?d1 = list_categories d @ [?c]"
    by (simp add: list_categories_def loadDB_def)
  have l2: "list_categories ?d2 = list_categories d @ [?c, ?c]"
    by (simp add: list_categories_def loadDB_def)
  have "cat_id ?c = map slug_char (toLowerCase name)" "cat_id ?c = map slug_of_char name"
    "cat_name ?c = name"
    by (simp_all add: slug_def slug_by_char [symmetric])
  with first second l1 l2 show ?thesis by blast
qed

lemma slug_breaking_news: "slug ''Breaking News'' = ''breaking-news''"
  by (simp add: slug_def toLowerCase_def lower_char_def slug_char_def is_upper_def is_lower_def
      is_upper_latin1_def is_digit_def char_of_def bit_0)

theorem category_slug_pushed_witness:
  "cb_name news_body = Some ''Breaking News'' \<and> write_ok env0 \<and>
   (\<exists>c d1 c' d2.
      add_category env0 news_body disk0 = (Inr c, d1) \<and>
      cat_id c = ''breaking-news'' \<and>
      list_categories d1 = default_categories @ [c] \<and>
      add_category env0 news_body d1 = (Inr c', d2) \<and>
      cat_id c' = ''breaking-news'' \<and>
      list_categories d2 = default_categories @ [c, c'])"
proof -
  have h: "cb_name news_body = Some ''Breaking News''" "write_ok env0"
    by (simp_all add: news_body_def env0_def)
  have cats: "list_categories disk0 = default_categories"
    by (simp add: list_categories_def loadDB_def disk0_def)
  from category_slug_pushed [OF h(1) h(2) h(2), of disk0]
  obtain c d1 c' d2 where r: "add_category env0 news_body disk0 = (Inr c, d1)"
    "cat_id c = map slug_char (toLowerCase ''Breaking News'')"
    "list_categories d1 = list_categories disk0 @ [c]"
    "add_category env0 news_body d1 = (Inr c', d2)"
    "cat_id c' = cat_id c"
    "list_categories d2 = list_categories disk0 @ [c, c']"
    by blast
  from r(2) have "cat_id c = ''breaking-news''"
    using slug_breaking_news by (simp add: slug_def)
  with r h cats show ?thesis by simp
qed

text \<open>
  C7 as stated fails at the second submission: the list of the eight default categories
  grows to ten, with two entries of the id \<open>breaking-news\<close>.
\<close>

theorem category_resubmitted_counterexample:
  "length (list_categories (snd (add_category env0 news_body (snd (add_category env0 news_body disk0))))) = 10 \<and>
   length (filter (\<lambda>c. cat_id c = ''breaking-news'')
     (list_categories (snd (add_category env0 news_body (snd (add_category env0 news_body disk0)))))) = 2"
  by (simp add: add_category_def list_categories_def loadDB_def saveDB_def Let_def disk0_def
      news_body_def env0_def default_categories_def slug_breaking_news)

section \<open>Storage names\<close>

lemma range_chars:
  assumes "b \<le> 256"
  shows "(a \<le> (of_char c :: nat) \<and> (of_char c :: nat) < b) \<longleftrightarrow> c \<in> set (map char_of [a..<b])"
proof
  assume "a \<le> (of_char c :: nat) \<and> (of_char c :: nat) < b"
  then have "(of_char c :: nat) \<in> set [a..<b]"
    by simp
  then have "char_of (of_char c :: nat) \<in> char_of ` set [a..<b]"
    by (rule imageI)
  then show "c \<in> set (map char_of [a..<b])"
    by simp
next
  assume "c \<in> set (map char_of [a..<b])"
  then obtain n where n: "a \<le> n" "n < b" "c = char_of n"
    by auto
  with assms have "(of_char c :: nat) = n"
    by (simp add: of_char_of)
  with n show "a \<le> (of_char c :: nat) \<and> (of_char c :: nat) < b"
    by simp
qed

lemma upper_letters: "map char_of [65..<91::nat] = ''ABCDEFGHIJKLMNOPQRSTUVWXYZ''"
  by (simp add: upt_rec char_of_def bit_0)

lemma lower_letters: "map char_of [97..<123::nat] = ''abcdefghijklmnopqrstuvwxyz''"
  by (simp add: upt_rec char_of_def bit_0)

lemma digit_letters: "map char_of [48..<58::nat] = ''0123456789''"
  by (simp add: upt_rec char_of_def bit_0)

lemma is_upper_iff: "is_upper c \<longleftrightarrow> c \<in> set ''ABCDEFGHIJKLMNOPQRSTUVWXYZ''"
proof -
  have "is_upper c \<longleftrightarrow> 65 \<le> (of_char c :: nat) \<and> (of_char c :: nat) < 91"
    by (auto simp: is_upper_def)
  also have "\<dots> \<longleftrightarrow> c \<in> set (map char_of [65..<91::nat])"
    by (rule range_chars) simp
  finally show ?thesis
    by (simp only: upper_letters)
qed

lemma is_lower_iff: "is_lower c \<longleftrightarrow> c \<in> set ''abcdefghijklmnopqrstuvwxyz''"
proof -
  have "is_lower c \<longleftrightarrow> 97 \<le> (of_char c :: nat) \<and> (of_char c :: nat) < 123"
    by (auto simp: is_lower_def)
  also have "\<dots> \<longleftrightarrow> c \<in> set (map char_of [97..<123::nat])"
    by (rule range_chars) simp
  finally show ?thesis
    by (simp only: lower_letters)
qed

lemma is_digit_iff: "is_digit c \<longleftrightarrow> c \<in> set ''0123456789''"
proof -
  have "is_digit c \<longleftrightarrow> 48 \<le> (of_char c :: nat) \<and> (of_char c :: nat) < 58"
    by (auto simp: is_digit_def)
  also have "\<dots> \<longleftrightarrow> c \<in> set (map char_of [48..<58::nat])"
    by (rule range_chars) simp
  finally show ?thesis
    by (simp only: digit_letters)
qed

lemma name_alphabet_parts:
  "name_alphabet = ''ABCDEFGHIJKLMNOPQRSTUVWXYZ'' @ ''abcdefghijklmnopqrstuvwxyz'' @ ''0123456789'' @ ''.-''"
  by (simp add: name_alphabet_def)

lemma in_name_alphabet:
  "c \<in> set name_alphabet \<longleftrightarrow> is_lower c \<or> is_upper c \<or> is_digit c \<or> c = CHR ''.'' \<or> c = CHR ''-''"
proof -
  have "c \<in> set name_alphabet \<longleftrightarrow>
      c \<in> set ''ABCDEFGHIJKLMNOPQRSTUVWXYZ'' \<or> c \<in> set ''abcdefghijklmnopqrstuvwxyz'' \<or>
      c \<in> set ''0123456789'' \<or> c \<in> set ''.-''"
    by (simp only: name_alphabet_parts set_append Un_iff)
  also have "\<dots> \<longleftrightarrow> is_upper c \<or> is_lower c \<or> is_digit c \<or> c \<in> set ''.-''"
    by (simp only: is_upper_iff is_lower_iff is_digit_iff)
  also have "\<dots> \<longleftrightarrow> is_lower c \<or> is_upper c \<or> is_digit c \<or> c = CHR ''.'' \<or> c = CHR ''-''"
    by auto
  finally show ?thesis .
qed

lemma safe_char_sanitized: "map safe_char name = sanitized name"
  by (simp add: sanitized_def safe_char_def in_name_alphabet)

lemma digit_chars: "map digit_char [0..<16] = hex_digits"
  by (simp add: upt_rec digit_char_def hex_digits_def char_of_def bit_0)

lemma digit_char_hex:
  assumes "v < 16"
  shows "digit_char v = hex_digits ! v"
proof -
  from assms have "map digit_char [0..<16] ! v = digit_char ([0..<16] ! v)"
    by (intro nth_map) simp
  also from assms have "\<dots> = digit_char v"
    by simp
  finally show ?thesis
    by (simp only: digit_chars)
qed

lemma hex_byte_digits: "hex_byte b = [hex_digits ! (unat b div 16), hex_digits ! (unat b mod 16)]"
proof -
  have "unat b < 256"
    using unsigned_less [of b, where 'a = nat] by simp
  then have "unat b div 16 < 16" "unat b mod 16 < 16"
    by simp_all
  then show ?thesis by (simp add: hex_byte_def digit_char_hex)
qed

lemma hex_string_token: "hex_string bs = hex_token bs"
  by (induction bs) (simp_all add: hex_string_def hex_token_def hex_byte_digits)

lemma hex_token_length: "length (hex_token bs) = 2 * length bs"
  by (induction bs) (simp_all add: hex_token_def)

lemma hex_digits_alphabet:
  assumes "v < 16"
  shows "hex_digits ! v \<in> set name_alphabet"
proof -
  from assms have "v \<in> set [0..<16]"
    by simp
  then show ?thesis
    unfolding in_name_alphabet
    by (simp add: upt_rec hex_digits_def is_digit_def is_lower_def) (elim disjE, simp_all)
qed

lemma hex_token_chars: "list_all name_char (hex_token bs)"
proof -
  have "unat b div 16 < 16 \<and> unat b mod 16 < 16" for b :: "8 word"
    using unsigned_less [of b, where 'a = nat] by simp
  then show ?thesis
    by (induction bs) (simp_all add: hex_token_def name_char_def hex_digits_alphabet)
qed

lemma sanitized_chars: "list_all name_char (sanitized name)"
  by (induction name) (simp_all add: sanitized_def name_char_def)

lemma name_char_separators:
  "\<not> name_char (CHR ''/'')" "\<not> name_char (CHR 0x5C)" "\<not> name_char (CHR 0x00)"
  by (simp_all add: name_char_def name_alphabet_def)

lemma storage_filename_spec:
  "storage_filename e originalname = hex_token (map (random e) [0..<8]) @ ''_'' @ sanitized originalname"
  by (simp add: storage_filename_def Let_def randomBytes_def hex_string_token safe_char_sanitized)

lemma storage_filename_chars: "list_all name_char (storage_filename e originalname)"
  using hex_token_chars [of "map (random e) [0..<8]"] sanitized_chars [of originalname]
  by (simp add: storage_filename_spec name_char_def)

lemma storage_filename_length: "length (storage_filename e originalname) = 17 + length originalname"
  by (simp add: storage_filename_spec hex_token_length sanitized_def)

lemma storage_filename_single: "single_entry (storage_filename e originalname)"
proof -
  let ?s = "storage_filename e originalname"
  have all: "\<forall>c \<in> set ?s. name_char c"
    using storage_filename_chars [of e originalname] by (simp add: list_all_iff)
  have len: "17 \<le> length ?s"
    by (simp add: storage_filename_length)
  have "?s \<noteq> []" "?s \<noteq> ''.''" "?s \<noteq> ''..''"
    using len by auto
  moreover have "CHR ''/'' \<notin> set ?s" "CHR 0x5C \<notin> set ?s" "CHR 0x00 \<notin> set ?s"
    using all name_char_separators by blast+
  ultimately show ?thesis by (simp add: single_entry_def)
qed

lemma upload_single_stored:
  assumes "upload_single e (Some f) d = (Inr (Some u), d')"
  shows "mf_originalname u = basename (in_filename f) \<and>
         mf_filename u = storage_filename e (mf_originalname u) \<and>
         uploads d' = (uploads d)(mf_filename u \<mapsto> in_data f)"
  using assms by (auto simp: upload_single_def store_blob_def Let_def split: if_splits)

lemma upload_single_free_stored:
  assumes "upload_single_free e (Some f) d = (Inr (Some u), d')"
  shows "mf_originalname u = basename (in_filename f) \<and>
         mf_filename u = storage_filename_free e (mf_originalname u) \<and>
         uploads d' = (uploads d)(mf_filename u \<mapsto> in_data f)"
  using assms by (auto simp: upload_single_free_def store_blob_def Let_def split: if_splits)

text \<open>
  C9. In both variants of the server the storage name of an upload is the token of the
  first eight random bytes of the request, each byte written as two digits of
  \<open>0123456789abcdef\<close>, then an underscore, then the original name with every character
  outside \<open>A\<close>..\<open>Z\<close>, \<open>a\<close>..\<open>z\<close>, \<open>0\<close>..\<open>9\<close>, \<open>.\<close> and \<open>-\<close> replaced by an underscore and every
  character inside kept. The name therefore holds no path separator and is a single
  entry of a directory. The original name is the one the middleware reports, the base
  name of the file name the client sent, and the blob the middleware accepts is stored in
  the uploads directory under the storage name of that original name, with nothing else
  there changed.
\<close>

theorem storage_name_stays_inside:
  "storage_filename e originalname =
     hex_token (map (random e) [0..<8]) @ ''_'' @ sanitized originalname \<and>
   storage_filename_free e originalname = storage_filename e originalname \<and>
   length (hex_token (map (random e) [0..<8])) = 16 \<and>
   length (storage_filename e originalname) = 17 + length originalname \<and>
   list_all name_char (storage_filename e originalname) \<and>
   CHR ''/'' \<notin> set (storage_filename e originalname) \<and>
   CHR 0x5C \<notin> set (storage_filename e originalname) \<and>
   single_entry (storage_filename e originalname) \<and>
   (\<forall>f u d'. upload_single e (Some f) d = (Inr (Some u), d') \<longrightarrow>
      mf_originalname u = basename (in_filename f) \<and>
      mf_filename u = storage_filename e (mf_originalname u) \<and>
      uploads d' = (uploads d)(mf_filename u \<mapsto> in_data f)) \<and>
   (\<forall>f u d'. upload_single_free e (Some f) d = (Inr (Some u), d') \<longrightarrow>
      mf_originalname u = basename (in_filename f) \<and>
      mf_filename u = storage_filename e (mf_originalname u) \<and>
      uploads d' = (uploads d)(mf_filename u \<mapsto> in_data f))"
proof -
  have same: "storage_filename_free e n = storage_filename e n" for n
    by (simp add: storage_filename_def storage_filename_free_def Let_def)
  have single: "single_entry (storage_filename e originalname)"
    by (rule storage_filename_single)
  have token: "length (hex_token (map (random e) [0..<8])) = 16"
    by (simp add: hex_token_length)
  show ?thesis
    using same single token upload_single_stored [of e _ d] upload_single_free_stored [of e _ d]
      storage_filename_chars [of e originalname] storage_filename_length [of e originalname]
      storage_filename_spec [of e originalname]
    by (simp add: single_entry_def)
qed

text \<open>
  The upload \<open>untitled_pdf\<close>: the client sends the file name \<open>../plan B.pdf\<close>, the middleware
  reports \<open>plan B.pdf\<close>, and the blob is stored as \<open>0a1a2a3a4a5a6a7a_plan_B.pdf\<close>, the only
  entry of the uploads directory.
\<close>

lemma upload_untitled_blob:
  "upload_single env0 (up_file untitled_pdf) disk0 =
     (Inr (Some \<lparr>mf_originalname = ''plan B.pdf'', mf_filename = ''0a1a2a3a4a5a6a7a_plan_B.pdf'',
                  mf_mimetype = ''application/pdf'', mf_size = 8\<rparr>),
      disk0\<lparr>uploads := [''0a1a2a3a4a5a6a7a_plan_B.pdf'' \<mapsto> ''%PDF-1.4'']\<rparr>)"
  by (simp add: upload_single_def store_blob_def untitled_pdf_def fileFilter_def allowedTypes_def
      fileSize_limit_def storage_filename_def Let_def env0_def disk0_def text_eval part_eval
      safe_char_def is_lower_def is_digit_def)

lemma token_env0: "hex_token (map (random env0) [0..<8]) = ''0a1a2a3a4a5a6a7a''"
  by (simp add: hex_token_def hex_digits_def env0_def upt_rec)

lemma sanitized_plan: "sanitized ''plan B.pdf'' = ''plan_B.pdf''"
  by (simp add: sanitized_def name_alphabet_def)

theorem storage_name_stays_inside_witness:
  "hex_token (map (random env0) [0..<8]) = ''0a1a2a3a4a5a6a7a'' \<and>
   sanitized ''plan B.pdf'' = ''plan_B.pdf'' \<and>
   storage_filename env0 ''plan B.pdf'' = ''0a1a2a3a4a5a6a7a_plan_B.pdf'' \<and>
   storage_filename_free env0 ''plan B.pdf'' = ''0a1a2a3a4a5a6a7a_plan_B.pdf'' \<and>
   single_entry (storage_filename env0 ''plan B.pdf'') \<and>
   (\<exists>u d'. upload_single env0 (up_file untitled_pdf) disk0 = (Inr (Some u), d') \<and>
      mf_originalname u = ''plan B.pdf'' \<and>
      mf_filename u = ''0a1a2a3a4a5a6a7a_plan_B.pdf'' \<and>
      uploads d' = (uploads disk0)(''0a1a2a3a4a5a6a7a_plan_B.pdf'' \<mapsto> ''%PDF-1.4'') \<and>
      dom (uploads d') = {''0a1a2a3a4a5a6a7a_plan_B.pdf''})"
proof -
  let ?f = "\<lparr>in_filename = ''../plan B.pdf'', in_mediatype = ''Application/PDF'',
             in_data = ''%PDF-1.4''\<rparr>"
  let ?u = "\<lparr>mf_originalname = ''plan B.pdf'', mf_filename = ''0a1a2a3a4a5a6a7a_plan_B.pdf'',
             mf_mimetype = ''application/pdf'', mf_size = 8\<rparr>"
  let ?d = "disk0\<lparr>uploads := [''0a1a2a3a4a5a6a7a_plan_B.pdf'' \<mapsto> ''%PDF-1.4'']\<rparr>"
  note inside = storage_name_stays_inside [of env0 "''plan B.pdf''" disk0]
  have "storage_filename env0 ''plan B.pdf'' =
      hex_token (map (random env0) [0..<8]) @ ''_'' @ sanitized ''plan B.pdf''"
    using inside by blast
  then have name: "storage_filename env0 ''plan B.pdf'' = ''0a1a2a3a4a5a6a7a_plan_B.pdf''"
    by (simp add: token_env0 sanitized_plan)
  have "storage_filename_free env0 ''plan B.pdf'' = storage_filename env0 ''plan B.pdf''"
    using inside by blast
  with name have free: "storage_filename_free env0 ''plan B.pdf'' = ''0a1a2a3a4a5a6a7a_plan_B.pdf''"
    by simp
  have single: "single_entry (storage_filename env0 ''plan B.pdf'')"
    using inside by blast
  have "\<exists>u d'. upload_single env0 (up_file untitled_pdf) disk0 = (Inr (Some u), d') \<and>
      mf_originalname u = ''plan B.pdf'' \<and>
      mf_filename u = ''0a1a2a3a4a5a6a7a_plan_B.pdf'' \<and>
      uploads d' = (uploads disk0)(''0a1a2a3a4a5a6a7a_plan_B.pdf'' \<mapsto> ''%PDF-1.4'') \<and>
      dom (uploads d') = {''0a1a2a3a4a5a6a7a_plan_B.pdf''}"
  proof -
    have part: "up_file untitled_pdf = Some ?f"
      by (simp add: untitled_pdf_def)
    have stored: "upload_single env0 (Some ?f) disk0 = (Inr (Some ?u), ?d)"
      using upload_untitled_blob by (simp add: part)
    from inside stored
    have both: "mf_originalname ?u = basename (in_filename ?f) \<and>
          mf_filename ?u = storage_filename env0 (mf_originalname ?u) \<and>
          uploads ?d = (uploads disk0)(mf_filename ?u \<mapsto> in_data ?f)"
      by blast
    have sel: "mf_originalname ?u = ''plan B.pdf''" "in_data ?f = ''%PDF-1.4''"
      "mf_filename ?u = ''0a1a2a3a4a5a6a7a_plan_B.pdf''"
      by simp_all
    have "uploads ?d = (uploads disk0)(''0a1a2a3a4a5a6a7a_plan_B.pdf'' \<mapsto> ''%PDF-1.4'')"
      using both unfolding sel by blast
    moreover have "dom (uploads ?d) = {''0a1a2a3a4a5a6a7a_plan_B.pdf''}"
      by simp
    ultimately show ?thesis
      using stored part sel by (intro exI [of _ ?u] exI [of _ ?d]) (simp only: simp_thms)
  qed
  with name free single show ?thesis
    by (simp only: token_env0 sanitized_plan simp_thms)
qed

section \<open>Uploads without a title\<close>

lemma upload_single_accepts:
  assumes "basename (in_filename f) \<noteq> []" "fileFilter (toLowerCase (in_mediatype f))"
    "length (in_data f) \<le> fileSize_limit" "blob_write_ok e"
  shows "upload_single e (Some f) d =
           (Inr (Some \<lparr>mf_originalname = basename (in_filename f),
                        mf_filename = storage_filename e (basename (in_filename f)),
                        mf_mimetype = toLowerCase (in_mediatype f), mf_size = length (in_data f)\<rparr>),
            d\<lparr>uploads := (uploads d)(storage_filename e (basename (in_filename f)) \<mapsto> in_data f)\<rparr>)"
  using assms by (simp add: upload_single_def store_blob_def Let_def)

lemma upload_single_free_accepts:
  assumes "basename (in_filename f) \<noteq> []" "length (in_data f) \<le> fileSize_limit_free"
    "blob_write_ok e"
  shows "upload_single_free e (Some f) d =
           (Inr (Some \<lparr>mf_originalname = basename (in_filename f),
                        mf_filename = storage_filename_free e (basename (in_filename f)),
                        mf_mimetype = toLowerCase (in_mediatype f), mf_size = length (in_data f)\<rparr>),
            d\<lparr>uploads := (uploads d)(storage_filename_free e (basename (in_filename f)) \<mapsto> in_data f)\<rparr>)"
  using assms by (simp add: upload_single_free_def store_blob_def Let_def)

lemma upload_single_name:
  assumes "upload_single e part d = (Inr (Some u), d')"
  shows "\<exists>f. part = Some f \<and> mf_originalname u = basename (in_filename f)"
  using assms
  by (cases part) (auto simp: upload_single_def store_blob_def Let_def split: if_splits)

lemma upload_single_free_name:
  assumes "upload_single_free e part d = (Inr (Some u), d')"
  shows "\<exists>f. part = Some f \<and> mf_originalname u = basename (in_filename f)"
  using assms
  by (cases part) (auto simp: upload_single_free_def store_blob_def Let_def split: if_splits)

lemma or_else_absent: "\<not> given x \<Longrightarrow> or_else x y = y"
  by (simp add: given_def or_else_def split: option.splits)

lemma upload_handler_result:
  "fst (upload_handler e (Some u) b d) = Inl (Thrown ''TypeError'') \<or>
   fst (upload_handler e (Some u) b d) = Inr (uploaded_item e d b u)"
  by (simp add: upload_handler_def Let_def split: option.splits)

lemma upload_handler_free_result:
  "fst (upload_handler_free e (Some u) b d) = Inl (Thrown ''TypeError'') \<or>
   (\<exists>ts. fst (upload_handler_free e (Some u) b d) = Inr (uploaded_item_free e b u ts))"
  by (auto simp: upload_handler_free_def upload_tags_free_def Let_def
      split: option.splits sum.splits tags_field.splits)

lemma upload_item_cases:
  "(\<exists>err. upload_item e rq d = (Inl err, snd (upload_single e (up_file rq) d)) \<and>
          upload_single e (up_file rq) d = (Inl err, snd (upload_single e (up_file rq) d))) \<or>
   (\<exists>u d1. upload_single e (up_file rq) d = (Inr u, d1) \<and>
          upload_item e rq d = upload_handler e u (up_body rq) d1)"
  by (cases "upload_single e (up_file rq) d"; cases "fst (upload_single e (up_file rq) d)")
    (auto simp: upload_item_def)

lemma upload_item_free_cases:
  "(\<exists>err. upload_item_free e rq d = (Inl err, snd (upload_single_free e (up_file rq) d)) \<and>
          upload_single_free e (up_file rq) d = (Inl err, snd (upload_single_free e (up_file rq) d))) \<or>
   (\<exists>u d1. upload_single_free e (up_file rq) d = (Inr u, d1) \<and>
          upload_item_free e rq d = upload_handler_free e u (up_body rq) d1)"
  by (cases "upload_single_free e (up_file rq) d"; cases "fst (upload_single_free e (up_file rq) d)")
    (auto simp: upload_item_free_def)

lemma upload_single_thrown:
  "upload_single e part d = (Inl err, d') \<Longrightarrow> \<exists>m. err = Thrown m"
  by (cases part) (auto simp: upload_single_def store_blob_def Let_def split: if_splits)

lemma upload_single_free_thrown:
  "upload_single_free e part d = (Inl err, d') \<Longrightarrow> \<exists>m. err = Thrown m"
  by (cases part) (auto simp: upload_single_free_def store_blob_def Let_def split: if_splits)

lemma upload_never_asks_title:
  "fst (upload_item e rq d) \<noteq> Inl (HttpError 400 ''Title required'')"
proof -
  from upload_item_cases [of e rq d] show ?thesis
  proof (elim disjE exE conjE)
    fix err
    assume "upload_item e rq d = (Inl err, snd (upload_single e (up_file rq) d))"
      and "upload_single e (up_file rq) d = (Inl err, snd (upload_single e (up_file rq) d))"
    then show ?thesis using upload_single_thrown by fastforce
  next
    fix u d1
    assume "upload_single e (up_file rq) d = (Inr u, d1)"
      and h: "upload_item e rq d = upload_handler e u (up_body rq) d1"
    show ?thesis
      unfolding h by (simp add: upload_handler_def Let_def split: option.splits)
  qed
qed

lemma upload_free_never_asks_title:
  "fst (upload_item_free e rq d) \<noteq> Inl (HttpError 400 ''Title required'')"
proof -
  from upload_item_free_cases [of e rq d] show ?thesis
  proof (elim disjE exE conjE)
    fix err
    assume "upload_item_free e rq d = (Inl err, snd (upload_single_free e (up_file rq) d))"
      and "upload_single_free e (up_file rq) d = (Inl err, snd (upload_single_free e (up_file rq) d))"
    then show ?thesis using upload_single_free_thrown by fastforce
  next
    fix u d1
    assume "upload_single_free e (up_file rq) d = (Inr u, d1)"
      and h: "upload_item_free e rq d = upload_handler_free e u (up_body rq) d1"
    show ?thesis
      unfolding h
      by (simp add: upload_handler_free_def upload_tags_free_def Let_def
          split: option.splits sum.splits tags_field.splits)
  qed
qed

lemma upload_success_title:
  assumes "\<not> given (ub_title (up_body rq))" "upload_item e rq d = (Inr it, d')"
  shows "\<exists>f fi. up_file rq = Some f \<and> item_file it = Some fi \<and>
           title it = f_originalName fi \<and> title it = basename (in_filename f)"
proof -
  from upload_item_cases [of e rq d] assms(2)
  obtain u d1 where s: "upload_single e (up_file rq) d = (Inr u, d1)"
    and h: "upload_handler e u (up_body rq) d1 = (Inr it, d')"
    by auto
  from h obtain m where u: "u = Some m"
    by (cases u) (simp_all add: upload_handler_def)
  from upload_handler_result [of e m "up_body rq" d1] h u
  have it: "it = uploaded_item e d1 (up_body rq) m" by simp
  from upload_single_name [OF s [unfolded u]]
  obtain f where f: "up_file rq = Some f" "mf_originalname m = basename (in_filename f)" by blast
  have "title it = basename (in_filename f)"
    using assms(1) f(2) by (simp add: it uploaded_item_def or_else_absent)
  moreover have "\<exists>fi. item_file it = Some fi \<and> title it = f_originalName fi"
    using assms(1) by (simp add: it uploaded_item_def or_else_absent)
  ultimately show ?thesis using f(1) by blast
qed

lemma upload_free_success_title:
  assumes "\<not> given (ub_title (up_body rq))" "upload_item_free e rq d = (Inr it, d')"
  shows "\<exists>f fi. up_file rq = Some f \<and> item_file it = Some fi \<and>
           title it = f_originalName fi \<and> title it = basename (in_filename f)"
proof -
  from upload_item_free_cases [of e rq d] assms(2)
  obtain u d1 where s: "upload_single_free e (up_file rq) d = (Inr u, d1)"
    and h: "upload_handler_free e u (up_body rq) d1 = (Inr it, d')"
    by auto
  from h obtain m where u: "u = Some m"
    by (cases u) (simp_all add: upload_handler_free_def)
  from upload_handler_free_result [of e m "up_body rq" d1] h u
  obtain ts where it: "it = uploaded_item_free e (up_body rq) m ts" by auto
  from upload_single_free_name [OF s [unfolded u]]
  obtain f where f: "up_file rq = Some f" "mf_originalname m = basename (in_filename f)" by blast
  have "title it = basename (in_filename f)"
    using assms(1) f(2) by (simp add: it uploaded_item_free_def or_else_absent)
  moreover have "\<exists>fi. item_file it = Some fi \<and> title it = f_originalName fi"
    using assms(1) by (simp add: it uploaded_item_free_def or_else_absent)
  ultimately show ?thesis using f(1) by blast
qed

lemma upload_accepted_creates:
  assumes "\<not> given (ub_title (up_body rq))" "up_file rq = Some f"
    and "basename (in_filename f) \<noteq> []" "fileFilter (toLowerCase (in_mediatype f))"
    and "length (in_data f) \<le> fileSize_limit" "blob_write_ok e"
    and "library_json d = Some db" "write_ok e"
  shows "\<exists>it d' db'. upload_item e rq d = (Inr it, d') \<and> title it = basename (in_filename f) \<and>
           item_type it = ''file'' \<and> library_json d' = Some db' \<and> items db' = it # items db"
  using assms
  by (simp add: upload_item_def upload_single_accepts upload_handler_def Let_def loadDB_def
      saveDB_def uploaded_item_def or_else_absent)

lemma upload_free_accepted_creates:
  assumes "\<not> given (ub_title (up_body rq))" "up_file rq = Some f"
    and "basename (in_filename f) \<noteq> []"
    and "length (in_data f) \<le> fileSize_limit_free" "blob_write_ok e"
    and "upload_tags_free (ub_tags (up_body rq)) = Inr ts" "write_ok e"
  shows "\<exists>it d' db'. upload_item_free e rq d = (Inr it, d') \<and> title it = basename (in_filename f) \<and>
           item_type it = ''file'' \<and> library_json d' = Some db' \<and>
           items db' = it # (case library_json d of None \<Rightarrow> [] | Some db \<Rightarrow> items db)"
  using assms
  by (simp add: upload_item_free_def upload_single_free_accepts upload_handler_free_def Let_def
      loadDB_def saveDB_def uploaded_item_free_def or_else_absent split: option.splits)

text \<open>
  C10. An upload whose metadata has no title (or an empty one) is never answered with the
  error of a missing title, in either variant of the server, while a create request with
  the same title field is answered with 400 and \<open>Title required\<close>. Whenever such an upload
  succeeds, the title of the item it made is the original name of the uploaded file: the
  \<open>originalName\<close> of the file record of the item, which is the name the middleware
  reports, the base name of the file name the client sent. And it does succeed, putting
  the new item first in the document: in the first variant when that base name is not
  empty, the media type in lower case passes the filter, the file is within the size
  limit, the blob and the document can be written and the document loads; in the second
  variant when the base name is not empty, the file is within its limit, the writes
  succeed and the \<open>tags\<close> field, if given, is a string.
\<close>

theorem upload_title_is_original_name:
  assumes "\<not> given (ub_title (up_body rq))"
  shows "fst (upload_item e rq d) \<noteq> Inl (HttpError 400 ''Title required'') \<and>
         fst (upload_item_free e rq d) \<noteq> Inl (HttpError 400 ''Title required'') \<and>
         (\<forall>b. b_title b = ub_title (up_body rq) \<longrightarrow>
            fst (create_item e b d) = Inl (HttpError 400 ''Title required'')) \<and>
         (\<forall>it d'. upload_item e rq d = (Inr it, d') \<longrightarrow>
            (\<exists>f fi. up_file rq = Some f \<and> item_file it = Some fi \<and>
               title it = f_originalName fi \<and> title it = basename (in_filename f))) \<and>
         (\<forall>it d'. upload_item_free e rq d = (Inr it, d') \<longrightarrow>
            (\<exists>f fi. up_file rq = Some f \<and> item_file it = Some fi \<and>
               title it = f_originalName fi \<and> title it = basename (in_filename f))) \<and>
         (\<forall>f db. up_file rq = Some f \<and> basename (in_filename f) \<noteq> [] \<and>
                 fileFilter (toLowerCase (in_mediatype f)) \<and>
                 length (in_data f) \<le> fileSize_limit \<and> blob_write_ok e \<and>
                 library_json d = Some db \<and> write_ok e \<longrightarrow>
            (\<exists>it d' db'. upload_item e rq d = (Inr it, d') \<and>
               title it = basename (in_filename f) \<and>
               item_type it = ''file'' \<and> library_json d' = Some db' \<and> items db' = it # items db)) \<and>
         (\<forall>f ts. up_file rq = Some f \<and> basename (in_filename f) \<noteq> [] \<and>
                 length (in_data f) \<le> fileSize_limit_free \<and>
                 blob_write_ok e \<and> upload_tags_free (ub_tags (up_body rq)) = Inr ts \<and> write_ok e \<longrightarrow>
            (\<exists>it d' db'. upload_item_free e rq d = (Inr it, d') \<and>
               title it = basename (in_filename f) \<and>
               item_type it = ''file'' \<and> library_json d' = Some db' \<and>
               items db' = it # (case library_json d of None \<Rightarrow> [] | Some db \<Rightarrow> items db)))"
proof -
  have "fst (create_item e b d) = Inl (HttpError 400 ''Title required'')"
    if "b_title b = ub_title (up_body rq)" for b
    using assms that by (simp add: create_item_def Let_def)
  then show ?thesis
    using upload_never_asks_title [of e rq d] upload_free_never_asks_title [of e rq d]
      upload_success_title [OF assms, of e d] upload_free_success_title [OF assms, of e d]
      upload_accepted_creates [OF assms, of _ e d] upload_free_accepted_creates [OF assms, of _ e _ d]
    by blast
qed

text \<open>
  The upload \<open>untitled_pdf\<close>: the client names the file \<open>../plan B.pdf\<close> and gives no
  title; both variants make an item with the title \<open>plan B.pdf\<close>.
\<close>

lemma basename_plan: "basename ''../plan B.pdf'' = ''plan B.pdf''"
  by (simp add: basename_def is_separator_def)

lemma mediatype_pdf: "toLowerCase ''Application/PDF'' = ''application/pdf''"
  by (simp add: toLowerCase_def lower_char_def is_upper_def is_upper_latin1_def char_of_def bit_0)

theorem upload_title_is_original_name_witness:
  "\<not> given (ub_title (up_body untitled_pdf)) \<and>
   up_file untitled_pdf = Some \<lparr>in_filename = ''../plan B.pdf'', in_mediatype = ''Application/PDF'',
                                 in_data = ''%PDF-1.4''\<rparr> \<and>
   basename ''../plan B.pdf'' = ''plan B.pdf'' \<and>
   fileFilter (toLowerCase ''Application/PDF'') \<and> length ''%PDF-1.4'' \<le> fileSize_limit \<and>
   length ''%PDF-1.4'' \<le> fileSize_limit_free \<and> blob_write_ok env0 \<and> write_ok env0 \<and>
   library_json disk0 = Some (empty_db 0) \<and>
   upload_tags_free (ub_tags (up_body untitled_pdf)) = Inr [] \<and>
   b_title no_body = ub_title (up_body untitled_pdf) \<and>
   fst (create_item env0 no_body disk0) = Inl (HttpError 400 ''Title required'') \<and>
   (\<exists>it d'. upload_item env0 untitled_pdf disk0 = (Inr it, d') \<and> title it = ''plan B.pdf'' \<and>
      map title (items (the (library_json d'))) = [''plan B.pdf'']) \<and>
   (\<exists>it d'. upload_item_free env0 untitled_pdf disk0 = (Inr it, d') \<and> title it = ''plan B.pdf'' \<and>
      map title (items (the (library_json d'))) = [''plan B.pdf''])"
proof -
  let ?f = "\<lparr>in_filename = ''../plan B.pdf'', in_mediatype = ''Application/PDF'',
             in_data = ''%PDF-1.4''\<rparr>"
  have h: "\<not> given (ub_title (up_body untitled_pdf))"
    by (simp add: untitled_pdf_def no_upload_body_def given_def)
  have pre: "up_file untitled_pdf = Some ?f" "basename (in_filename ?f) \<noteq> []"
    "fileFilter (toLowerCase (in_mediatype ?f))"
    "length (in_data ?f) \<le> fileSize_limit" "length (in_data ?f) \<le> fileSize_limit_free"
    "blob_write_ok env0" "write_ok env0" "library_json disk0 = Some (empty_db 0)"
    "upload_tags_free (ub_tags (up_body untitled_pdf)) = Inr []"
    by (simp_all add: untitled_pdf_def fileFilter_def allowedTypes_def fileSize_limit_def
        fileSize_limit_free_def env0_def disk0_def upload_tags_free_def no_upload_body_def
        basename_plan mediatype_pdf)
  note t = upload_title_is_original_name [OF h, of env0 disk0]
  have main: "\<exists>it d' db'. upload_item env0 untitled_pdf disk0 = (Inr it, d') \<and>
      title it = basename (in_filename ?f) \<and> item_type it = ''file'' \<and>
      library_json d' = Some db' \<and> items db' = it # items (empty_db 0)"
    using t pre by blast
  have free: "\<exists>it d' db'. upload_item_free env0 untitled_pdf disk0 = (Inr it, d') \<and>
      title it = basename (in_filename ?f) \<and> item_type it = ''file'' \<and>
      library_json d' = Some db' \<and>
      items db' = it # (case library_json disk0 of None \<Rightarrow> [] | Some db \<Rightarrow> items db)"
    using t pre by blast
  from main obtain it d' db' where m: "upload_item env0 untitled_pdf disk0 = (Inr it, d')"
    "title it = basename (in_filename ?f)" "library_json d' = Some db'"
    "items db' = it # items (empty_db 0)"
    by blast
  from free obtain it2 d2 db2 where f: "upload_item_free env0 untitled_pdf disk0 = (Inr it2, d2)"
    "title it2 = basename (in_filename ?f)" "library_json d2 = Some db2"
    "items db2 = it2 # (case library_json disk0 of None \<Rightarrow> [] | Some db \<Rightarrow> items db)"
    by blast
  have same: "b_title no_body = ub_title (up_body untitled_pdf)"
    by (simp add: no_body_def untitled_pdf_def no_upload_body_def)
  then have create: "fst (create_item env0 no_body disk0) = Inl (HttpError 400 ''Title required'')"
    using t by blast
  have t1: "title it = ''plan B.pdf''" "title it2 = ''plan B.pdf''"
    using m(2) f(2) by (simp_all add: basename_plan)
  have "map title (items (the (library_json d'))) = [''plan B.pdf'']"
    using m t1 by (simp add: empty_db_def)
  with m(1) t1(1)
  have first: "\<exists>it d'. upload_item env0 untitled_pdf disk0 = (Inr it, d') \<and> title it = ''plan B.pdf'' \<and>
      map title (items (the (library_json d'))) = [''plan B.pdf'']"
    by (intro exI [of _ it] exI [of _ d']) (simp only: simp_thms)
  have "map title (items (the (library_json d2))) = [''plan B.pdf'']"
    using f t1 by (simp add: disk0_def empty_db_def)
  with f(1) t1(2)
  have second: "\<exists>it d'. upload_item_free env0 untitled_pdf disk0 = (Inr it, d') \<and>
      title it = ''plan B.pdf'' \<and>
      map title (items (the (library_json d'))) = [''plan B.pdf'']"
    by (intro exI [of _ it2] exI [of _ d2]) (simp only: simp_thms)
  have sizes: "fileFilter (toLowerCase ''Application/PDF'')" "length ''%PDF-1.4'' \<le> fileSize_limit"
    "length ''%PDF-1.4'' \<le> fileSize_limit_free"
    using pre(3,4,5) by simp_all
  show ?thesis
    by (intro conjI h pre(1,6,7,8,9) basename_plan sizes same create first second)
qed

section \<open>Failures of the store\<close>

text \<open>
  C6 (every failure of the store is answered with a 500 error and never with success)
  does not hold of the code. With a disk that refuses the write, \<open>saveDB\<close> returns \<open>false\<close>,
  the create handler drops that result and answers \<open>{success: true, item}\<close>, and nothing
  is stored; the import handler, whose \<open>catch\<close> would answer 500, answers success too.
  A document that does not load is answered with 500 and \<open>Database error\<close> by the list
  route.
\<close>

theorem failed_write_answers_success:
  "snd (saveDB disk_full library_json_update (empty_db 9) disk0) = False \<and>
   (\<exists>it. create_item disk_full (no_body\<lparr>b_title := Some ''Kyiv''\<rparr>) disk0 = (Inr it, disk0) \<and>
      title it = ''Kyiv'') \<and>
   library_json disk0 = Some (empty_db 0) \<and>
   import_data disk_full \<lparr>im_library = Some (empty_db 9), im_categories = None, im_tags = None\<rparr> disk0
     = (Inr (), disk0) \<and>
   list_items length no_query (disk0\<lparr>library_json := None\<rparr>) = Inl (HttpError 500 ''Database error'')"
  by (simp add: saveDB_def disk_full_def env0_def create_item_def import_data_def list_items_def
      loadDB_def Let_def disk0_def given_def no_body_def new_item_def)

section \<open>The order of a listing\<close>

lemma slice_take_drop: "\<exists>n m. slice xs a b = take n (drop m xs)"
  by (auto simp: slice_def Let_def)

lemma sorted_wrt_slice: "sorted_wrt P xs \<Longrightarrow> sorted_wrt P (slice xs a b)"
proof -
  assume s: "sorted_wrt P xs"
  obtain n m where "slice xs a b = take n (drop m xs)"
    using slice_take_drop by blast
  then show ?thesis
    using s by (simp add: sorted_wrt_take sorted_wrt_drop)
qed

lemma sorted_key_wrt: "sorted_wrt (\<lambda>a b. f a \<le> f b) (sort_key f xs)"
  using sorted_sort_key [of f xs] by (simp add: sorted_wrt_map)

lemma sort_items_oldest: "oldest_first (sort_items collate (Some ''oldest'') xs)"
  using sorted_key_wrt [of "\<lambda>i. int (created i)" xs]
  by (simp add: sort_items_def oldest_first_def)

lemma sort_items_title: "by_title collate (sort_items collate (Some ''title'') xs)"
  using sorted_key_wrt [of "\<lambda>i. collate (title i)" xs]
  by (simp add: sort_items_def by_title_def)

lemma sort_items_newest:
  assumes "srt \<noteq> Some ''oldest''" "srt \<noteq> Some ''title''"
  shows "newest_first (sort_items collate srt xs)"
  using sorted_key_wrt [of "\<lambda>i. - int (created i)" xs] assms
  by (simp add: sort_items_def newest_first_def)

lemma sort_items_mset: "mset (sort_items collate srt xs) = mset xs"
  by (simp add: sort_items_def)

lemma list_items_loaded:
  assumes "list_items collate q d = Inr r"
  shows "\<exists>db. library_json d = Some db \<and>
           r_items r = slice (sort_items collate (q_sort q) (filter_items q (items db)))
                         (num_or (parseInt (q_offset q)) 0)
                         (num_or (parseInt (q_offset q)) 0 + num_or (parseInt (q_limit q)) 50) \<and>
           r_total r = length (sort_items collate (q_sort q) (filter_items q (items db)))"
  using assms by (auto simp: list_items_def loadDB_def Let_def split: option.splits)

lemma list_items_answers:
  assumes "library_json d = Some db"
  shows "\<exists>r. list_items collate q d = Inr r"
  using assms by (simp add: list_items_def loadDB_def Let_def)

lemma slice_whole:
  assumes "length xs \<le> 50"
  shows "slice xs 0 (0 + 50) = xs"
  using assms by (simp add: slice_def Let_def)

text \<open>
  C8, as the code has it. Whenever the document loads, the list route answers with a page
  of the sequence \<open>S\<close> that holds exactly the filtered items (each as often as the filter
  passed it) in the order of the sort: non-decreasing \<open>created\<close> for \<open>sort=oldest\<close>, ascending
  title in the order of \<open>localeCompare\<close> (the collation of the runtime, not the order of the
  code units) for \<open>sort=title\<close>, and non-increasing \<open>created\<close> for every other value of
  \<open>sort\<close> and for none. The page is the slice of \<open>S\<close> at the offset and the limit of the
  request, all of \<open>S\<close> when neither is given and \<open>S\<close> has at most 50 items; \<open>total\<close> is the
  length of \<open>S\<close>; and the page is in the same order as \<open>S\<close>.
\<close>

theorem listing_is_ordered:
  assumes "library_json d = Some db"
  shows "\<exists>r S. list_items collate q d = Inr r \<and>
           mset S = mset (filter_items q (items db)) \<and>
           (q_sort q = Some ''oldest'' \<longrightarrow> oldest_first S) \<and>
           (q_sort q = Some ''title'' \<longrightarrow> by_title collate S) \<and>
           (q_sort q \<noteq> Some ''oldest'' \<and> q_sort q \<noteq> Some ''title'' \<longrightarrow> newest_first S) \<and>
           r_total r = length S \<and>
           r_items r = slice S (num_or (parseInt (q_offset q)) 0)
                         (num_or (parseInt (q_offset q)) 0 + num_or (parseInt (q_limit q)) 50) \<and>
           (q_offset q = None \<and> q_limit q = None \<and> length S \<le> 50 \<longrightarrow> r_items r = S) \<and>
           (q_sort q = Some ''oldest'' \<longrightarrow> oldest_first (r_items r)) \<and>
           (q_sort q = Some ''title'' \<longrightarrow> by_title collate (r_items r)) \<and>
           (q_sort q \<noteq> Some ''oldest'' \<and> q_sort q \<noteq> Some ''title'' \<longrightarrow> newest_first (r_items r))"
proof -
  from list_items_answers [OF assms] obtain r where r: "list_items collate q d = Inr r"
    by blast
  let ?S = "sort_items collate (q_sort q) (filter_items q (items db))"
  let ?a = "num_or (parseInt (q_offset q)) 0"
  let ?n = "num_or (parseInt (q_limit q)) 50"
  from list_items_loaded [OF r] assms
  have cut: "r_items r = slice ?S ?a (?a + ?n)" and total: "r_total r = length ?S"
    by auto
  have same: "mset ?S = mset (filter_items q (items db))"
    by (rule sort_items_mset)
  have old: "q_sort q = Some ''oldest'' \<longrightarrow> oldest_first ?S"
    using sort_items_oldest [of collate "filter_items q (items db)"] by auto
  have ttl: "q_sort q = Some ''title'' \<longrightarrow> by_title collate ?S"
    using sort_items_title [of collate "filter_items q (items db)"] by auto
  have new: "q_sort q \<noteq> Some ''oldest'' \<and> q_sort q \<noteq> Some ''title'' \<longrightarrow> newest_first ?S"
    using sort_items_newest [of "q_sort q" collate "filter_items q (items db)"] by blast
  have whole: "q_offset q = None \<and> q_limit q = None \<and> length ?S \<le> 50 \<longrightarrow> r_items r = ?S"
  proof (intro impI, elim conjE)
    assume "q_offset q = None" "q_limit q = None" "length ?S \<le> 50"
    then show "r_items r = ?S"
      using slice_whole [of ?S] by (simp add: cut parseInt_def num_or_def)
  qed
  have old_page: "q_sort q = Some ''oldest'' \<longrightarrow> oldest_first (r_items r)"
    using old unfolding cut oldest_first_def by (blast intro: sorted_wrt_slice)
  have ttl_page: "q_sort q = Some ''title'' \<longrightarrow> by_title collate (r_items r)"
    using ttl unfolding cut by_title_def by (blast intro: sorted_wrt_slice)
  have new_page: "q_sort q \<noteq> Some ''oldest'' \<and> q_sort q \<noteq> Some ''title'' \<longrightarrow>
      newest_first (r_items r)"
    using new unfolding cut newest_first_def by (blast intro: sorted_wrt_slice)
  show ?thesis
    by (intro exI [of _ r] exI [of _ ?S] conjI r same old ttl new total cut whole
        old_page ttl_page new_page)
qed

lemma reports_disk_library:
  "library_json reports_disk =
     Some \<lparr>items = [ukraine_brief, report_a, report_b],
           stats = \<lparr>totalItems = 3, totalFiles = 0, totalLinks = 0, totalSize = 0\<rparr>,
           lastUpdated = 32\<rparr>"
  by (simp add: reports_disk_def run_op_def create_item_def Let_def loadDB_def saveDB_def
      disk0_def empty_db_def given_def no_body_def new_item_def or_else_def or_null_def
      env0_def text_eval ukraine_brief_def report_a_def report_b_def note_item_def)

lemma reports_by_title:
  "list_items code_units (no_query\<lparr>q_sort := Some ''title''\<rparr>) reports_disk =
     Inr \<lparr>r_items = [report_a, report_b, ukraine_brief], r_total = 3, r_offset = 0, r_limit = 50,
          r_stats = \<lparr>totalItems = 3, totalFiles = 0, totalLinks = 0, totalSize = 0\<rparr>\<rparr>"
  by (simp add: list_items_def loadDB_def reports_disk_library Let_def no_query_def
      filter_items_def given_def sort_items_def parseInt_def num_or_def slice_def
      ukraine_brief_def report_a_def report_b_def note_item_def code_units_def)

lemma reports_oldest:
  "list_items code_units (no_query\<lparr>q_sort := Some ''oldest''\<rparr>) reports_disk =
     Inr \<lparr>r_items = [report_b, report_a, ukraine_brief], r_total = 3, r_offset = 0, r_limit = 50,
          r_stats = \<lparr>totalItems = 3, totalFiles = 0, totalLinks = 0, totalSize = 0\<rparr>\<rparr>"
  by (simp add: list_items_def loadDB_def reports_disk_library Let_def no_query_def
      filter_items_def given_def sort_items_def parseInt_def num_or_def slice_def
      ukraine_brief_def report_a_def report_b_def note_item_def)

lemma reports_newest:
  "list_items code_units no_query reports_disk =
     Inr \<lparr>r_items = [ukraine_brief, report_a, report_b], r_total = 3, r_offset = 0, r_limit = 50,
          r_stats = \<lparr>totalItems = 3, totalFiles = 0, totalLinks = 0, totalSize = 0\<rparr>\<rparr>"
  by (simp add: list_items_def loadDB_def reports_disk_library Let_def no_query_def
      filter_items_def given_def sort_items_def parseInt_def num_or_def slice_def
      ukraine_brief_def report_a_def report_b_def note_item_def)


lemma letters_disk_library:
  "library_json letters_disk =
     Some \<lparr>items = [alpha_note, beta_note],
           stats = \<lparr>totalItems = 2, totalFiles = 0, totalLinks = 0, totalSize = 0\<rparr>,
           lastUpdated = 22\<rparr>"
  by (simp add: letters_disk_def run_op_def create_item_def Let_def loadDB_def saveDB_def
      disk0_def empty_db_def given_def no_body_def new_item_def or_else_def or_null_def
      env0_def text_eval alpha_note_def beta_note_def note_item_def)

lemma alpha_before_beta: "locale_key ''alpha'' \<le> locale_key ''Beta''"
  by (simp add: locale_key_def primary_weight_def case_weight_def is_lower_def is_upper_def
      is_digit_def)

lemma beta_not_before_alpha: "\<not> locale_key ''Beta'' \<le> locale_key ''alpha''"
  by (simp add: locale_key_def primary_weight_def case_weight_def is_lower_def is_upper_def
      is_digit_def)

lemma letters_by_title:
  "list_items locale_key (no_query\<lparr>q_sort := Some ''title''\<rparr>) letters_disk =
     Inr \<lparr>r_items = [alpha_note, beta_note], r_total = 2, r_offset = 0, r_limit = 50,
          r_stats = \<lparr>totalItems = 2, totalFiles = 0, totalLinks = 0, totalSize = 0\<rparr>\<rparr>"
proof -
  have "sort_key (\<lambda>i. locale_key (title i)) [alpha_note, beta_note] = [alpha_note, beta_note]"
    using alpha_before_beta by (simp add: alpha_note_def beta_note_def note_item_def)
  then show ?thesis
    by (simp add: list_items_def loadDB_def letters_disk_library Let_def no_query_def
        filter_items_def given_def sort_items_def parseInt_def num_or_def slice_def)
qed

theorem listing_is_ordered_witness:
  "library_json reports_disk \<noteq> None \<and> library_json letters_disk \<noteq> None \<and>
   (\<exists>r. list_items code_units (no_query\<lparr>q_sort := Some ''oldest''\<rparr>) reports_disk = Inr r \<and>
      map created (r_items r) = [6, 21, 31] \<and> r_total r = 3 \<and> oldest_first (r_items r)) \<and>
   (\<exists>r. list_items locale_key (no_query\<lparr>q_sort := Some ''title''\<rparr>) letters_disk = Inr r \<and>
      map title (r_items r) = [''alpha'', ''Beta''] \<and> r_total r = 2 \<and>
      by_title locale_key (r_items r)) \<and>
   (\<exists>r. list_items code_units no_query reports_disk = Inr r \<and>
      map created (r_items r) = [31, 21, 6] \<and> r_total r = 3 \<and> newest_first (r_items r))"
proof -
  let ?db = "the (library_json reports_disk)"
  let ?ldb = "the (library_json letters_disk)"
  let ?oldest = "no_query\<lparr>q_sort := Some ''oldest''\<rparr>"
  let ?title = "no_query\<lparr>q_sort := Some ''title''\<rparr>"
  have loaded: "library_json reports_disk = Some ?db"
    by (simp add: reports_disk_library)
  have letters: "library_json letters_disk = Some ?ldb"
    by (simp add: letters_disk_library)
  have first: "\<exists>r. list_items code_units ?oldest reports_disk = Inr r \<and>
      map created (r_items r) = [6, 21, 31] \<and> r_total r = 3 \<and> oldest_first (r_items r)"
  proof -
    from listing_is_ordered [OF loaded, of code_units ?oldest]
    obtain r where r: "list_items code_units ?oldest reports_disk = Inr r"
      and o: "q_sort ?oldest = Some ''oldest'' \<longrightarrow> oldest_first (r_items r)"
      by blast
    from o have "oldest_first (r_items r)"
      by simp
    moreover from r have "map created (r_items r) = [6, 21, 31]" "r_total r = 3"
      by (auto simp: reports_oldest ukraine_brief_def report_a_def report_b_def note_item_def)
    ultimately show ?thesis using r by (intro exI [of _ r]) (simp only: simp_thms)
  qed
  have second: "\<exists>r. list_items locale_key ?title letters_disk = Inr r \<and>
      map title (r_items r) = [''alpha'', ''Beta''] \<and> r_total r = 2 \<and>
      by_title locale_key (r_items r)"
  proof -
    from listing_is_ordered [OF letters, of locale_key ?title]
    obtain r where r: "list_items locale_key ?title letters_disk = Inr r"
      and o: "q_sort ?title = Some ''title'' \<longrightarrow> by_title locale_key (r_items r)"
      by blast
    from o have "by_title locale_key (r_items r)"
      by simp
    moreover from r have "map title (r_items r) = [''alpha'', ''Beta'']" "r_total r = 2"
      by (auto simp: letters_by_title alpha_note_def beta_note_def note_item_def)
    ultimately show ?thesis using r by (intro exI [of _ r]) (simp only: simp_thms)
  qed
  have third: "\<exists>r. list_items code_units no_query reports_disk = Inr r \<and>
      map created (r_items r) = [31, 21, 6] \<and> r_total r = 3 \<and> newest_first (r_items r)"
  proof -
    have srt: "q_sort no_query \<noteq> Some ''oldest''" "q_sort no_query \<noteq> Some ''title''"
      by (simp_all add: no_query_def)
    from listing_is_ordered [OF loaded, of code_units no_query]
    obtain r where r: "list_items code_units no_query reports_disk = Inr r"
      and o: "q_sort no_query \<noteq> Some ''oldest'' \<and> q_sort no_query \<noteq> Some ''title'' \<longrightarrow>
              newest_first (r_items r)"
      by blast
    from o srt have "newest_first (r_items r)"
      by simp
    moreover from r have "map created (r_items r) = [31, 21, 6]" "r_total r = 3"
      by (auto simp: reports_newest ukraine_brief_def report_a_def report_b_def note_item_def)
    ultimately show ?thesis using r by (intro exI [of _ r]) (simp only: simp_thms)
  qed
  have "library_json reports_disk \<noteq> None" "library_json letters_disk \<noteq> None"
    by (simp_all add: reports_disk_library letters_disk_library)
  with first second third show ?thesis
    by (simp only: simp_thms)
qed

text \<open>
  C8 as stated fails for \<open>sort=title\<close>. The lexicographic order compares code unit by code
  unit, so \<open>Beta\<close> comes before \<open>alpha\<close> (\<open>B\<close> is 66, \<open>a\<close> is 97); the route sorts with
  \<open>localeCompare\<close> and answers \<open>alpha\<close>, \<open>Beta\<close>.
\<close>

theorem title_order_counterexample:
  "\<exists>r. list_items locale_key (no_query\<lparr>q_sort := Some ''title''\<rparr>) letters_disk = Inr r \<and>
       map title (r_items r) = [''alpha'', ''Beta''] \<and>
       code_units ''Beta'' < code_units ''alpha'' \<and>
       \<not> sorted (map (\<lambda>i. code_units (title i)) (r_items r))"
  by (simp add: letters_by_title alpha_note_def beta_note_def note_item_def code_units_def)

section \<open>Pages of a listing\<close>

lemma is_digit_not_space: "is_digit c \<Longrightarrow> \<not> is_space c"
  by (simp add: is_digit_def is_space_def)

lemma is_digit_not_sign: "is_digit c \<Longrightarrow> c \<noteq> CHR ''-'' \<and> c \<noteq> CHR ''+'' \<and> c \<noteq> CHR ''x'' \<and> c \<noteq> CHR ''X''"
  by (auto simp: is_digit_def)

lemma is_digit_radix: "is_digit c \<Longrightarrow> is_radix_digit 10 c"
  by (auto simp: is_digit_def is_radix_digit_def digit_value_def)

lemma digit_char_decimal: "v < 10 \<Longrightarrow> is_digit (digit_char v) \<and> digit_value (digit_char v) = Some v"
  by (simp add: digit_char_def is_digit_def digit_value_def)

lemma decimal_rec:
  "decimal n = (if n < 10 then [digit_char n] else decimal (n div 10) @ [digit_char (n mod 10)])"
  unfolding decimal_def by (subst radix_string.simps) simp

lemma decimal_digits: "decimal n \<noteq> [] \<and> list_all is_digit (decimal n)"
proof (induction n rule: less_induct)
  case (less n)
  show ?case
  proof (cases "n < 10")
    case True
    then show ?thesis
      by (subst decimal_rec, subst (2) decimal_rec) (simp add: digit_char_decimal)
  next
    case False
    then have "n div 10 < n" by simp
    from less.IH [OF this] have "list_all is_digit (decimal (n div 10))" by simp
    moreover have "is_digit (digit_char (n mod 10))"
      by (simp add: digit_char_decimal)
    ultimately show ?thesis
      using False by (subst decimal_rec, subst (2) decimal_rec) simp
  qed
qed

lemma digits_value_snoc:
  "digits_value r (ds @ [c]) = digits_value r ds * r + (case digit_value c of None \<Rightarrow> 0 | Some v \<Rightarrow> v)"
  by (simp add: digits_value_def)

lemma digits_value_decimal: "digits_value 10 (decimal n) = n"
proof (induction n rule: less_induct)
  case (less n)
  show ?case
  proof (cases "n < 10")
    case True
    then have "decimal n = [digit_char n]"
      by (subst decimal_rec) simp
    then show ?thesis
      using True by (simp add: digits_value_def digit_char_decimal)
  next
    case False
    then have "n div 10 < n" by simp
    from less.IH [OF this] have IH: "digits_value 10 (decimal (n div 10)) = n div 10" .
    have "decimal n = decimal (n div 10) @ [digit_char (n mod 10)]"
      using False by (subst decimal_rec) simp
    then show ?thesis
      by (simp add: digits_value_snoc IH digit_char_decimal)
  qed
qed

lemma parseInt_digits:
  assumes "ds \<noteq> []" "list_all is_digit ds"
  shows "parseInt (Some ds) = Some (int (to_double (digits_value 10 ds)))"
proof -
  from assms obtain c cs where ds: "ds = c # cs" and c: "is_digit c"
    by (cases ds) auto
  have nospace: "dropWhile is_space ds = ds"
    using c is_digit_not_space by (simp add: ds)
  have nosign: "\<not> startsWith ds ''-''" "\<not> startsWith ds ''+''"
    using c is_digit_not_sign by (auto simp: startsWith_def ds)
  have "cs \<noteq> [] \<Longrightarrow> hd cs \<noteq> CHR ''x'' \<and> hd cs \<noteq> CHR ''X''"
    using assms(2) is_digit_not_sign by (cases cs) (auto simp: ds)
  then have nohex: "\<not> startsWith ds ''0x''" "\<not> startsWith ds ''0X''"
    by (cases cs; auto simp: startsWith_def ds)+
  have "\<forall>x \<in> set ds. is_radix_digit 10 x"
    using assms(2) is_digit_radix by (auto simp: list_all_iff)
  then have all: "takeWhile (is_radix_digit 10) ds = ds"
    by (simp add: takeWhile_eq_all_conv)
  show ?thesis
    using assms(1) by (simp add: parseInt_def Let_def nospace nosign nohex all)
qed

lemma to_double_exact: "n \<le> 2 ^ 53 \<Longrightarrow> to_double n = n"
  by (simp add: to_double_def)

lemma parseInt_decimal:
  assumes "n \<le> 2 ^ 53"
  shows "parseInt (Some (decimal n)) = Some (int n)"
  using parseInt_digits [of "decimal n"] decimal_digits [of n] assms
  by (simp add: digits_value_decimal to_double_exact)

text \<open>Beyond \<open>2 ^ 53\<close> the numeral is rounded: \<open>2 ^ 53 + 1\<close> is read as \<open>2 ^ 53\<close>.\<close>

lemma parseInt_rounds: "parseInt (Some ''9007199254740993'') = Some 9007199254740992"
proof -
  have "bit_length 9007199254740993 = 54"
    by (simp add: bit_length.simps)
  then have "to_double 9007199254740993 = 9007199254740992"
    by (simp add: to_double_def)
  then show ?thesis
    by (simp add: parseInt_def Let_def startsWith_def is_space_def is_radix_digit_def
        digit_value_def is_digit_def digits_value_def)
qed

lemma parseInt_absent: "parseInt None = None"
  by (simp add: parseInt_def)

lemma start_of_offset:
  assumes "exact_number off"
  shows "num_or (parseInt (map_option decimal off)) 0 = int (window_start off)"
  using assms
  by (cases off)
    (simp_all add: parseInt_absent parseInt_decimal num_or_def window_start_def exact_number_def)

lemma count_of_limit:
  assumes "exact_number lim"
  shows "num_or (parseInt (map_option decimal lim)) 50 = int (window_length lim)"
  using assms
  by (cases lim)
    (simp_all add: parseInt_absent parseInt_decimal num_or_def window_length_def exact_number_def)

lemma slice_window: "slice xs (int m) (int m + int n) = take n (drop m xs)"
proof (cases "m \<le> length xs")
  case True
  then have "nat (min (int m + int n) (int (length xs)) - min (int m) (int (length xs))) = min n (length xs - m)"
    by (simp add: min_def) arith
  moreover have "nat (min (int m) (int (length xs))) = m"
    using True by (simp add: min_def)
  moreover have "take (min n (length xs - m)) (drop m xs) = take n (drop m xs)"
    by (simp add: min_def)
  ultimately show ?thesis
    by (simp add: slice_def Let_def)
next
  case False
  then show ?thesis by (simp add: slice_def Let_def min_def)
qed

lemma filter_items_paged: "filter_items (paged q off lim) xs = filter_items q xs"
  by (simp add: filter_items_def paged_def cong: option.case_cong)

text \<open>
  C3, as the code has it. With the offset and the limit given as non-negative decimal
  integers (up to \<open>2 ^ 53\<close>, which a JavaScript number holds exactly) or left out, the list
  route returns the window of the filtered and sorted
  sequence that starts at the offset (0 when absent) and has the length of the limit,
  where an absent limit and a limit of 0 both mean 50. A window that reaches beyond the
  end is cut at the end, one that starts beyond it is empty; neither is an error. The
  total is the length of the filtered and sorted sequence, and the answer repeats the
  offset and the limit it used.
\<close>

theorem page_is_window:
  assumes "library_json d = Some db" and "exact_number off" and "exact_number lim"
  shows "list_items collate (paged q off lim) d =
           Inr \<lparr>r_items = take (window_length lim)
                             (drop (window_start off)
                                (sort_items collate (q_sort q) (filter_items q (items db)))),
                r_total = length (sort_items collate (q_sort q) (filter_items q (items db))),
                r_offset = int (window_start off),
                r_limit = int (window_length lim),
                r_stats = stats db\<rparr>"
proof -
  have fields: "q_offset (paged q off lim) = map_option decimal off"
    "q_limit (paged q off lim) = map_option decimal lim"
    "q_sort (paged q off lim) = q_sort q"
    by (simp_all add: paged_def)
  show ?thesis
    using assms(1)
    by (simp add: list_items_def loadDB_def Let_def fields filter_items_paged
        start_of_offset [OF assms(2)] count_of_limit [OF assms(3)] slice_window)
qed

lemma decimal_small: "decimal 0 = ''0''" "decimal (Suc 0) = ''1''" "decimal 2 = ''2''" "decimal 7 = ''7''"
  by (simp_all add: decimal_rec digit_char_def char_of_def bit_0)

lemma reports_sorted:
  "sort_items code_units None (filter_items no_query [ukraine_brief, report_a, report_b]) =
     [ukraine_brief, report_a, report_b]"
  by (simp add: sort_items_def filter_items_def no_query_def given_def ukraine_brief_def
      report_a_def report_b_def note_item_def)

theorem page_is_window_witness:
  "library_json reports_disk \<noteq> None \<and> exact_number (Some 1) \<and> exact_number (Some 2) \<and>
   exact_number (Some 7) \<and> exact_number None \<and>
   q_offset (paged no_query (Some 1) (Some 2)) = Some ''1'' \<and>
   q_limit (paged no_query (Some 1) (Some 2)) = Some ''2'' \<and>
   list_items code_units (paged no_query (Some 1) (Some 2)) reports_disk =
     Inr \<lparr>r_items = [report_a, report_b], r_total = 3, r_offset = 1, r_limit = 2,
          r_stats = \<lparr>totalItems = 3, totalFiles = 0, totalLinks = 0, totalSize = 0\<rparr>\<rparr> \<and>
   list_items code_units (paged no_query (Some 7) None) reports_disk =
     Inr \<lparr>r_items = [], r_total = 3, r_offset = 7, r_limit = 50,
          r_stats = \<lparr>totalItems = 3, totalFiles = 0, totalLinks = 0, totalSize = 0\<rparr>\<rparr>"
proof -
  let ?db = "\<lparr>items = [ukraine_brief, report_a, report_b],
              stats = \<lparr>totalItems = 3, totalFiles = 0, totalLinks = 0, totalSize = 0\<rparr>,
              lastUpdated = 32\<rparr>"
  have loaded: "library_json reports_disk = Some ?db"
    by (rule reports_disk_library)
  have ex: "exact_number (Some 1)" "exact_number (Some 2)" "exact_number (Some 7)" "exact_number None"
    by (simp_all add: exact_number_def)
  have srt: "q_sort no_query = None"
    by (simp add: no_query_def)
  have "list_items code_units (paged no_query (Some 1) (Some 2)) reports_disk =
     Inr \<lparr>r_items = [report_a, report_b], r_total = 3, r_offset = 1, r_limit = 2,
          r_stats = \<lparr>totalItems = 3, totalFiles = 0, totalLinks = 0, totalSize = 0\<rparr>\<rparr>"
    using page_is_window [OF loaded ex(1) ex(2), of code_units no_query]
    by (simp add: srt reports_sorted window_start_def window_length_def)
  moreover have "list_items code_units (paged no_query (Some 7) None) reports_disk =
     Inr \<lparr>r_items = [], r_total = 3, r_offset = 7, r_limit = 50,
          r_stats = \<lparr>totalItems = 3, totalFiles = 0, totalLinks = 0, totalSize = 0\<rparr>\<rparr>"
    using page_is_window [OF loaded ex(3) ex(4), of code_units no_query]
    by (simp add: srt reports_sorted window_start_def window_length_def)
  moreover have "q_offset (paged no_query (Some 1) (Some 2)) = Some ''1''"
    "q_limit (paged no_query (Some 1) (Some 2)) = Some ''2''"
    by (simp_all add: paged_def decimal_small)
  ultimately show ?thesis
    using loaded ex by simp
qed

text \<open>
  C3 as stated fails for the limit 0: the window from the offset 0 of length 0 is empty, and
  the route returns the first 50 items (here all three) with \<open>limit: 50\<close>.
\<close>

theorem zero_limit_counterexample:
  "list_items code_units (no_query\<lparr>q_limit := Some ''0''\<rparr>) reports_disk =
     Inr \<lparr>r_items = [ukraine_brief, report_a, report_b], r_total = 3, r_offset = 0, r_limit = 50,
          r_stats = \<lparr>totalItems = 3, totalFiles = 0, totalLinks = 0, totalSize = 0\<rparr>\<rparr>"
proof -
  have "parseInt (Some ''0'') = Some 0"
    using parseInt_decimal [of 0] by (simp add: decimal_small)
  moreover have "parseInt None = None"
    by (rule parseInt_absent)
  moreover have "filter_items (no_query\<lparr>q_limit := Some ''0''\<rparr>) [ukraine_brief, report_a, report_b]
      = filter_items no_query [ukraine_brief, report_a, report_b]"
    by (simp add: filter_items_def no_query_def cong: option.case_cong)
  moreover have "q_sort (no_query\<lparr>q_limit := Some ''0''\<rparr>) = None"
    "q_offset (no_query\<lparr>q_limit := Some ''0''\<rparr>) = None"
    "q_limit (no_query\<lparr>q_limit := Some ''0''\<rparr>) = Some ''0''"
    by (simp_all add: no_query_def)
  ultimately show ?thesis
    by (simp add: list_items_def loadDB_def Let_def reports_disk_library reports_sorted
        num_or_def slice_def)
qed

section \<open>What a search finds\<close>

lemma startsWith_iff: "startsWith t p \<longleftrightarrow> (\<exists>ss. t = p @ ss)"
proof
  assume "startsWith t p"
  then have "t = p @ drop (length p) t"
    by (metis append_take_drop_id startsWith_def)
  then show "\<exists>ss. t = p @ ss" ..
next
  assume "\<exists>ss. t = p @ ss"
  then show "startsWith t p" by (auto simp: startsWith_def)
qed

lemma str_includes_iff: "str_includes t p \<longleftrightarrow> (\<exists>ps ss. t = ps @ p @ ss)"
proof (induction t)
  case Nil
  then show ?case by simp
next
  case (Cons c cs)
  show ?case
  proof
    assume "str_includes (c # cs) p"
    then consider "startsWith (c # cs) p" | "str_includes cs p" by auto
    then show "\<exists>ps ss. c # cs = ps @ p @ ss"
    proof cases
      case 1
      then obtain ss where "c # cs = p @ ss" by (auto simp: startsWith_iff)
      then have "c # cs = [] @ p @ ss" by simp
      then show ?thesis by blast
    next
      case 2
      with Cons.IH obtain ps ss where "cs = ps @ p @ ss" by blast
      then have "c # cs = (c # ps) @ p @ ss" by simp
      then show ?thesis by blast
    qed
  next
    assume "\<exists>ps ss. c # cs = ps @ p @ ss"
    then obtain ps ss where eq: "c # cs = ps @ p @ ss" by blast
    show "str_includes (c # cs) p"
    proof (cases ps)
      case Nil
      with eq have "startsWith (c # cs) p" by (auto simp: startsWith_iff)
      then show ?thesis by simp
    next
      case (Cons a as)
      with eq have "cs = as @ p @ ss" by simp
      with Cons.IH have "str_includes cs p" by blast
      then show ?thesis by simp
    qed
  qed
qed

lemma ci_substring_iff: "str_includes (toLowerCase t) (toLowerCase s) \<longleftrightarrow> ci_substring s t"
proof
  assume "str_includes (toLowerCase t) (toLowerCase s)"
  then obtain ps ss where "map lower_char t = ps @ (toLowerCase s @ ss)"
    by (auto simp: str_includes_iff toLowerCase_def)
  then have "\<exists>us vs. t = us @ vs \<and> ps = map lower_char us \<and> toLowerCase s @ ss = map lower_char vs"
    by (simp only: map_eq_append_conv)
  then obtain us vs where t: "t = us @ vs" and vs: "toLowerCase s @ ss = map lower_char vs"
    by blast
  from vs have "\<exists>u w. vs = u @ w \<and> toLowerCase s = map lower_char u \<and> ss = map lower_char w"
    by (simp only: append_eq_map_conv)
  then obtain u w where "vs = u @ w" "toLowerCase s = map lower_char u"
    by blast
  with t have "t = us @ u @ w" "toLowerCase u = toLowerCase s"
    by (simp_all add: toLowerCase_def)
  then show "ci_substring s t"
    unfolding ci_substring_def by blast
next
  assume "ci_substring s t"
  then obtain ps u ss where "t = ps @ u @ ss" "toLowerCase u = toLowerCase s"
    unfolding ci_substring_def by blast
  then have "toLowerCase t = toLowerCase ps @ toLowerCase s @ toLowerCase ss"
    by (simp add: toLowerCase_def)
  then show "str_includes (toLowerCase t) (toLowerCase s)"
    unfolding str_includes_iff by blast
qed

lemma search_match_iff: "search_match (toLowerCase s) i \<longleftrightarrow> named_in_fields s i"
  unfolding search_match_def named_in_fields_def ci_substring_iff list_ex_iff
  by (auto split: option.splits)

lemma search_match_preview_iff:
  "search_match_preview (toLowerCase s) i \<longleftrightarrow> named_in_fields s i \<or> named_in_preview s i"
  unfolding search_match_preview_def named_in_fields_def named_in_preview_def ci_substring_iff
    list_ex_iff
  by (auto split: option.splits)

lemma filter_items_searching:
  assumes "s \<noteq> []"
  shows "filter_items (searching s) xs = filter (named_in_fields s) xs"
  using assms
  by (simp add: filter_items_def searching_def no_query_def given_def search_match_iff [abs_def])

lemma slice_first: "slice xs 0 (int n) = take n xs"
  using slice_window [of xs 0 n] by simp

lemma search_by_text:
  assumes "s \<noteq> []" and "library_json d = Some db"
  shows "filter_items (searching s) (items db) = filter (named_in_fields s) (items db) \<and>
         list_items collate (searching s) d =
           Inr \<lparr>r_items = take 50 (sort_items collate None (filter (named_in_fields s) (items db))),
                r_total = length (filter (named_in_fields s) (items db)),
                r_offset = 0, r_limit = 50, r_stats = stats db\<rparr> \<and>
         search_items (Some s) d =
           \<lparr>s_items = take 50 (filter (\<lambda>i. named_in_fields s i \<or> named_in_preview s i) (items db)),
            s_total = length (filter (\<lambda>i. named_in_fields s i \<or> named_in_preview s i) (items db)),
            s_query = Some s\<rparr>"
proof -
  have f: "filter_items (searching s) (items db) = filter (named_in_fields s) (items db)"
    using filter_items_searching [OF assms(1)] .
  have q: "q_sort (searching s) = None" "q_offset (searching s) = None" "q_limit (searching s) = None"
    by (simp_all add: searching_def no_query_def)
  have l: "list_items collate (searching s) d =
           Inr \<lparr>r_items = take 50 (sort_items collate None (filter (named_in_fields s) (items db))),
                r_total = length (filter (named_in_fields s) (items db)),
                r_offset = 0, r_limit = 50, r_stats = stats db\<rparr>"
    using assms(2) slice_first [of _ 50]
    by (simp add: list_items_def loadDB_def Let_def f q parseInt_absent num_or_def
        sort_items_def)
  have "search_items (Some s) d =
           \<lparr>s_items = take 50 (filter (\<lambda>i. named_in_fields s i \<or> named_in_preview s i) (items db)),
            s_total = length (filter (\<lambda>i. named_in_fields s i \<or> named_in_preview s i) (items db)),
            s_query = Some s\<rparr>"
    using assms slice_first [of _ 50]
    by (simp add: search_items_def loadDB_def Let_def given_def search_match_preview_iff [abs_def])
  with f l show ?thesis by simp
qed

text \<open>
  C4, as the code has it, for the search text \<open>ukraine\<close>. The filter of the list route keeps
  exactly the items that have \<open>ukraine\<close>, in any mix of upper and lower case, in their
  title, their description, one of their tags or their content: the total of the answer
  counts them and, with no other parameter, the page holds the first 50 of them, newest
  first. The search route keeps the items that have it in one of these fields or in their
  text preview, in the order of the document: it returns the first 50 of them and the
  number of all of them. A field that is absent matches nothing and raises no error.
\<close>

theorem search_finds_named_items:
  assumes "library_json d = Some db"
  shows "filter_items (searching ''ukraine'') (items db) =
           filter (named_in_fields ''ukraine'') (items db) \<and>
         list_items collate (searching ''ukraine'') d =
           Inr \<lparr>r_items = take 50 (sort_items collate None
                               (filter (named_in_fields ''ukraine'') (items db))),
                r_total = length (filter (named_in_fields ''ukraine'') (items db)),
                r_offset = 0, r_limit = 50, r_stats = stats db\<rparr> \<and>
         search_items (Some ''ukraine'') d =
           \<lparr>s_items = take 50 (filter (\<lambda>i. named_in_fields ''ukraine'' i \<or>
                                           named_in_preview ''ukraine'' i) (items db)),
            s_total = length (filter (\<lambda>i. named_in_fields ''ukraine'' i \<or>
                                           named_in_preview ''ukraine'' i) (items db)),
            s_query = Some ''ukraine''\<rparr>"
proof -
  have "''ukraine'' \<noteq> []"
    by simp
  from search_by_text [OF this assms] show ?thesis .
qed

lemmas case_eval = toLowerCase_def lower_char_def is_upper_def is_upper_latin1_def is_lower_def
  is_digit_def char_of_def bit_0 startsWith_def

text \<open>The capital letters of the supplement are folded as the ASCII ones are.\<close>

lemma lower_case_supplement:
  "toLowerCase [CHR 0xC9, CHR ''C'', CHR ''o'', CHR 0xD7] = [CHR 0xE9, CHR ''c'', CHR ''o'', CHR 0xD7]"
  by (simp add: case_eval)

lemma named_ukraine: "named_in_fields ''ukraine'' i = search_match ''ukraine'' i"
  using search_match_iff [of "''ukraine''" i] by (simp add: case_eval)

lemma named_ukraine_preview:
  "(named_in_fields ''ukraine'' i \<or> named_in_preview ''ukraine'' i) = search_match_preview ''ukraine'' i"
  using search_match_preview_iff [of "''ukraine''" i] by (simp add: case_eval)

lemma reports_named:
  "search_match ''ukraine'' ukraine_brief" "\<not> search_match ''ukraine'' report_a"
  "\<not> search_match ''ukraine'' report_b"
  "search_match_preview ''ukraine'' ukraine_brief" "\<not> search_match_preview ''ukraine'' report_a"
  "\<not> search_match_preview ''ukraine'' report_b"
  by (simp_all add: search_match_def search_match_preview_def ukraine_brief_def report_a_def
      report_b_def note_item_def case_eval)

theorem search_finds_named_items_witness:
  "library_json reports_disk \<noteq> None \<and>
   map title (items (the (library_json reports_disk))) = [''Ukraine brief'', ''Report A'', ''Report B''] \<and>
   list_items code_units (searching ''ukraine'') reports_disk =
     Inr \<lparr>r_items = [ukraine_brief], r_total = 1, r_offset = 0, r_limit = 50,
          r_stats = \<lparr>totalItems = 3, totalFiles = 0, totalLinks = 0, totalSize = 0\<rparr>\<rparr> \<and>
   search_items (Some ''ukraine'') reports_disk =
     \<lparr>s_items = [ukraine_brief], s_total = 1, s_query = Some ''ukraine''\<rparr>"
proof -
  let ?db = "\<lparr>items = [ukraine_brief, report_a, report_b],
              stats = \<lparr>totalItems = 3, totalFiles = 0, totalLinks = 0, totalSize = 0\<rparr>,
              lastUpdated = 32\<rparr>"
  have loaded: "library_json reports_disk = Some ?db"
    by (rule reports_disk_library)
  have fields: "filter (named_in_fields ''ukraine'') [ukraine_brief, report_a, report_b] = [ukraine_brief]"
    by (simp add: named_ukraine reports_named)
  have both: "filter (\<lambda>i. named_in_fields ''ukraine'' i \<or> named_in_preview ''ukraine'' i)
      [ukraine_brief, report_a, report_b] = [ukraine_brief]"
    by (simp add: named_ukraine_preview reports_named)
  note found = search_finds_named_items [OF loaded, of code_units]
  from found have "list_items code_units (searching ''ukraine'') reports_disk =
     Inr \<lparr>r_items = take 50 (sort_items code_units None
                        (filter (named_in_fields ''ukraine'') [ukraine_brief, report_a, report_b])),
          r_total = length (filter (named_in_fields ''ukraine'') [ukraine_brief, report_a, report_b]),
          r_offset = 0, r_limit = 50,
          r_stats = \<lparr>totalItems = 3, totalFiles = 0, totalLinks = 0, totalSize = 0\<rparr>\<rparr>"
    by (simp del: filter.simps)
  then have "list_items code_units (searching ''ukraine'') reports_disk =
     Inr \<lparr>r_items = [ukraine_brief], r_total = 1, r_offset = 0, r_limit = 50,
          r_stats = \<lparr>totalItems = 3, totalFiles = 0, totalLinks = 0, totalSize = 0\<rparr>\<rparr>"
    unfolding fields by (simp add: sort_items_def)
  moreover from found have "search_items (Some ''ukraine'') reports_disk =
     \<lparr>s_items = take 50 (filter (\<lambda>i. named_in_fields ''ukraine'' i \<or> named_in_preview ''ukraine'' i)
                        [ukraine_brief, report_a, report_b]),
      s_total = length (filter (\<lambda>i. named_in_fields ''ukraine'' i \<or> named_in_preview ''ukraine'' i)
                        [ukraine_brief, report_a, report_b]),
      s_query = Some ''ukraine''\<rparr>"
    by (simp del: filter.simps)
  then have "search_items (Some ''ukraine'') reports_disk =
     \<lparr>s_items = [ukraine_brief], s_total = 1, s_query = Some ''ukraine''\<rparr>"
    unfolding both by simp
  moreover have "map title (items (the (library_json reports_disk))) = [''Ukraine brief'', ''Report A'', ''Report B'']"
    by (simp add: loaded ukraine_brief_def report_a_def report_b_def note_item_def)
  ultimately show ?thesis using loaded by simp
qed

lemma notes_disk_library:
  "library_json notes_disk =
     Some \<lparr>items = [notes_item],
           stats = \<lparr>totalItems = 1, totalFiles = 1, totalLinks = 0, totalSize = 14\<rparr>,
           lastUpdated = 7\<rparr>"
  by (simp add: notes_disk_def notes_txt_def upload_item_def upload_single_def store_blob_def
      upload_handler_def uploaded_item_def Let_def loadDB_def saveDB_def disk0_def empty_db_def
      fileFilter_def allowedTypes_def fileSize_limit_def storage_filename_def env0_def text_eval
      safe_char_def is_lower_def is_upper_def is_digit_def getFileType_def endsWith_def
      startsWith_def extractTextPreview_def or_else_def or_null_def upload_tags_def
      no_upload_body_def notes_item_def part_eval)

text \<open>
  C4 as stated fails on the search route. The uploaded text file \<open>notes.txt\<close> has
  \<open>Ukraine\<close> in its bytes, hence in its text preview, and in none of the four fields
  (its title is the file name, its description and tags are empty, and an upload has no
  \<open>content\<close> field); the search for \<open>ukraine\<close> returns it.
\<close>

theorem search_preview_counterexample:
  "search_items (Some ''ukraine'') notes_disk =
     \<lparr>s_items = [notes_item], s_total = 1, s_query = Some ''ukraine''\<rparr> \<and>
   \<not> named_in_fields ''ukraine'' notes_item \<and>
   title notes_item = ''notes.txt'' \<and> description notes_item = Some [] \<and>
   tags notes_item = Some [] \<and> content notes_item = None \<and>
   textPreview notes_item = Some ''Ukraine update''"
proof -
  have "\<not> search_match ''ukraine'' notes_item" "search_match_preview ''ukraine'' notes_item"
    by (simp_all add: search_match_def search_match_preview_def notes_item_def case_eval)
  then show ?thesis
    by (simp add: named_ukraine search_items_def loadDB_def notes_disk_library Let_def given_def
        slice_def case_eval) (simp add: notes_item_def)
qed

end
